theory Spec2Isabelle
  imports Complex_Main "HOL-Library.AList"
begin

section \<open>The assessment portal: data model\<close>

text \<open>
  The embedding follows the TypeScript sources: the API client (\<open>lib/api\<close>), the
  \<open>Dashboard\<close> component (test acquisition), the \<open>TestDisplay\<close> component and the
  \<open>ADOFTestDisplay\<close> component (answer capture and submission).

  An optional property (\<open>mcqs_id?: string\<close>) is a \<open>string option\<close>: \<open>None\<close> is the
  absent property (\<open>undefined\<close>). React state is an explicit record; an event handler is a
  function from the state before to the state after. The effects of a handler (the
  requests it sends, the notifications it shows, the callbacks it calls) are collected in
  a record that is passed along, together with the state of the remote server.
\<close>

subsection \<open>Interfaces of the API client\<close>

record AnswerOption =
  score :: int
  text_ :: string

record TestQuestion =
  question :: string
  question_no :: int
  trait :: string
  options :: "AnswerOption list"

text \<open>\<open>interface GenerateTestResponse\<close>; the properties \<open>id\<close> and \<open>_id\<close> are the
  fields \<open>id'\<close> and \<open>underscore_id\<close>, the response's own \<open>trait\<close> is \<open>test_trait\<close>.
  \<open>None\<close> is a property that is absent or \<open>null\<close>: the code reads these properties
  for their truthiness or to show them. The interface declares \<open>message\<close> as required;
  the object that \<open>handleGenerateTest\<close> stores can have a \<open>null\<close> there, so the field is
  optional here.\<close>

record GenerateTestResponse =
  mcqs_id :: "string option"
  document_id :: "string option"
  documentId :: "string option"
  id' :: "string option"
  underscore_id :: "string option"
  message :: "string option"
  questions :: "TestQuestion list"
  test_trait :: "string option"

text \<open>A property of a parsed response, where it matters whether the object has it:
  absent, present with the value \<open>null\<close>, or present with a value. Reading it gives
  \<open>undefined\<close>, \<open>null\<close> (both \<open>None\<close>) or the value.\<close>

datatype 'a property = Absent | Null | Present 'a

fun value_of :: "'a property \<Rightarrow> 'a option" where
  "value_of Absent = None"
| "value_of Null = None"
| "value_of (Present v) = Some v"

text \<open>The object that \<open>getMcqs\<close> resolves with, its fields prefixed \<open>gm_\<close>.
  \<open>interface GetMcqsResponse\<close> declares \<open>mcqs_id\<close>, \<open>document_id\<close>, \<open>questions\<close> and
  \<open>message\<close>; the parsed object can have more, and \<open>handleGenerateTest\<close> copies every
  property it has into the test it stores, so the record has every property that a reader
  of the stored test can see: the five identifiers, \<open>questions\<close>, \<open>message\<close> and
  \<open>trait\<close>. (A property with another name is copied too, and nothing reads it.)
  \<open>questions\<close>, when it has a value, is an array, as declared.\<close>

record GetMcqsResponse =
  gm_mcqs_id :: "string property"
  gm_document_id :: "string property"
  gm_documentId :: "string property"
  gm_id :: "string property"
  gm_underscore_id :: "string property"
  gm_questions :: "TestQuestion list property"
  gm_message :: "string property"
  gm_trait :: "string property"

record SubmitAnswersData =
  user_id :: string
  mcq_id :: string
  answers :: "(string \<times> string) list"

text \<open>The \<open>data\<close> object of \<open>SubmitAnswersResponse\<close> and of \<open>TestResult\<close> (the two
  interfaces are the same structure, and \<open>TestDisplay\<close> stores one as the other).
  \<open>TestDisplay.handleSubmit\<close> reads a top-level \<open>result_id\<close> too and guards against
  a missing \<open>data\<close>, so both are optional here, as is \<open>data.result_id\<close>.\<close>

record ResultData =
  analysis :: "(string \<times> string) list"
  max_score :: int
  rd_mcq_id :: string
  percentage :: int
  result_id :: "string option"
  total_score :: int
  rd_user_id :: string

record TestResult =
  top_result_id :: "string option"
  data :: "ResultData option"
  tr_message :: string

type_synonym SubmitAnswersResponse = TestResult

subsection \<open>JavaScript values and operators\<close>

text \<open>A thrown value: \<open>new Error(message)\<close>, the \<open>TypeError\<close> of a property read on
  \<open>undefined\<close> or \<open>null\<close>, or the \<open>SyntaxError\<close> of a failed JSON parse (the messages
  of the last two are the engine's).\<close>

datatype exn = Error string | TypeError string | SyntaxError string

fun exn_message :: "exn \<Rightarrow> string" where
  "exn_message (Error m) = m"
| "exn_message (TypeError m) = m"
| "exn_message (SyntaxError m) = m"

text \<open>Truthiness of an optional string: \<open>undefined\<close> and \<open>''\<close> are falsy.\<close>

definition truthy :: "string option \<Rightarrow> bool" where
  "truthy v = (case v of None \<Rightarrow> False | Some s \<Rightarrow> s \<noteq> [])"

text \<open>\<open>a || b\<close> on optional strings.\<close>

definition js_or :: "string option \<Rightarrow> string option \<Rightarrow> string option" where
  "js_or a b = (if truthy a then a else b)"

text \<open>White space as \<open>String.prototype.trim\<close> strips it, among the 8-bit characters:
  tab, line feed, vertical tab, form feed, carriage return, space, no-break space.\<close>

definition is_whitespace :: "char \<Rightarrow> bool" where
  "is_whitespace c = (c \<in> {CHR 0x09, CHR 0x0A, CHR 0x0B, CHR 0x0C, CHR 0x0D, CHR 0x20, CHR 0xA0})"

definition trim :: "string \<Rightarrow> string" where
  "trim s = rev (dropWhile is_whitespace (rev (dropWhile is_whitespace s)))"

text \<open>\<open>Number.prototype.toString\<close> on a non-negative integer below \<open>10\<^sup>2\<^sup>1\<close>, as
  the indices of an array and the status codes are: its decimal digits.\<close>

definition digit :: "nat \<Rightarrow> char" where
  "digit d = ''0123456789'' ! d"

fun toString :: "nat \<Rightarrow> string" where
  "toString n = (if n < 10 then [digit n] else toString (n div 10) @ [digit (n mod 10)])"

declare toString.simps [simp del]

text \<open>\<open>parseInt\<close> on a string of decimal digits: the number read from the longest prefix
  of digits, \<open>None\<close> (\<open>NaN\<close>) when the string does not start with a digit. (Leading white
  space, signs and the \<open>0x\<close> prefix are not modelled: the only arguments here are the
  keys of \<open>selectedAnswers\<close>, which are canonical decimal strings.)\<close>

definition is_digit :: "char \<Rightarrow> bool" where
  "is_digit c = ((48::nat) \<le> of_char c \<and> of_char c \<le> (57::nat))"

definition digit_value :: "char \<Rightarrow> nat" where
  "digit_value c = of_char c - 48"

definition parseInt :: "string \<Rightarrow> nat option" where
  "parseInt s =
     (let ds = takeWhile is_digit s
      in if ds = [] then None else Some (foldl (\<lambda>a c. 10 * a + digit_value c) 0 ds))"

text \<open>An object whose keys are array indices (\<open>{ [questionIndex: number]: number }\<close>):
  the list of its own properties in the order \<open>Object.keys\<close> and \<open>Object.entries\<close>
  enumerate them, ascending by index. \<open>{...prev, [k]: v}\<close> is \<open>obj_put k v prev\<close>.\<close>

fun obj_put :: "nat \<Rightarrow> 'v \<Rightarrow> (nat \<times> 'v) list \<Rightarrow> (nat \<times> 'v) list" where
  "obj_put k v [] = [(k, v)]"
| "obj_put k v ((k', v') # xs) =
     (if k < k' then (k, v) # (k', v') # xs
      else if k = k' then (k, v) # xs
      else (k', v') # obj_put k v xs)"

text \<open>\<open>Object.entries\<close>: the keys come back as strings.\<close>

definition Object_entries :: "(nat \<times> 'v) list \<Rightarrow> (string \<times> 'v) list" where
  "Object_entries obj = map (\<lambda>(k, v). (toString k, v)) obj"

section \<open>Identifier resolution and score translation\<close>

text \<open>\<open>getDocumentId\<close> of \<open>TestDisplay\<close>:
  \<open>testData.mcqs_id || testData.document_id || testData.documentId || testData.id || testData._id || ''\<close>.
  The last operand is a string, so the result is one.\<close>

definition getDocumentId :: "GenerateTestResponse \<Rightarrow> string" where
  "getDocumentId testData =
     (case js_or (js_or (js_or (js_or (js_or (mcqs_id testData) (document_id testData))
                 (documentId testData)) (id' testData)) (underscore_id testData)) (Some [])
      of Some s \<Rightarrow> s | None \<Rightarrow> [])"

text \<open>The identifier resolution as the specification words it: the first non-empty value
  of a priority list, the empty string when there is none.\<close>

fun first_non_empty :: "string option list \<Rightarrow> string" where
  "first_non_empty [] = []"
| "first_non_empty (None # vs) = first_non_empty vs"
| "first_non_empty (Some s # vs) = (if s \<noteq> [] then s else first_non_empty vs)"

text \<open>The \<open>switch (score)\<close> of both \<open>handleSubmit\<close> functions: the value it
  leaves in \<open>responseText\<close>.\<close>

definition responseTextOf :: "int \<Rightarrow> string" where
  "responseTextOf sc =
     (if sc = 1 then ''Strongly Disagree''
      else if sc = 2 then ''Disagree''
      else if sc = 3 then ''Neutral''
      else if sc = 4 then ''Agree''
      else if sc = 5 then ''Strongly Agree''
      else ''Neutral'')"

definition likert_vocabulary :: "string list" where
  "likert_vocabulary = [''Strongly Disagree'', ''Disagree'', ''Neutral'', ''Agree'', ''Strongly Agree'']"

text \<open>The conversion loop of both \<open>handleSubmit\<close> functions:
  \<open>Object.entries(selectedAnswers).forEach(([questionIndex, score]) => {
     const questionNumber = parseInt(questionIndex) + 1; ...
     answersForAPI[questionNumber.toString()] = responseText; })\<close>.
  \<open>answersForAPI\<close> is the list of the object's properties: an assignment replaces the
  value of a key that is there and adds a new key at the end (the entries are visited in
  ascending order, so this is also the ascending order in which the keys are enumerated).
  A \<open>NaN\<close> question number prints as \<open>NaN\<close>.\<close>

definition questionKey :: "string \<Rightarrow> string" where
  "questionKey questionIndex =
     (case parseInt questionIndex of None \<Rightarrow> ''NaN'' | Some i \<Rightarrow> toString (i + 1))"

definition answersForAPI :: "(nat \<times> int) list \<Rightarrow> (string \<times> string) list" where
  "answersForAPI selected =
     fold (\<lambda>(questionIndex, sc) acc. AList.update (questionKey questionIndex) (responseTextOf sc) acc)
          (Object_entries selected) []"

section \<open>The remote server and the effects of a handler\<close>

text \<open>The object \<open>api\<close> as the components see it: each function takes its argument
  and the state of the remote server, and resolves (\<open>Inr\<close>, with the parsed response) or
  rejects (\<open>Inl\<close>, with the thrown error); the server may change its state at every call.\<close>

record 'srv api =
  generateTest :: "string \<Rightarrow> 'srv \<Rightarrow> (exn + GenerateTestResponse) \<times> 'srv"
  getMcqs :: "string \<Rightarrow> 'srv \<Rightarrow> (exn + GetMcqsResponse) \<times> 'srv"
  submitAnswers :: "SubmitAnswersData \<Rightarrow> 'srv \<Rightarrow> (exn + SubmitAnswersResponse) \<times> 'srv"
  getResultById :: "string \<Rightarrow> 'srv \<Rightarrow> (exn + TestResult) \<times> 'srv"

datatype request =
  GenerateTest string
| GetMcqs string
| SubmitAnswers SubmitAnswersData
| GetResultById string

text \<open>A notification. The description of a success notification is the template
  \<open>Your score: ${percentage}%\<close>, kept as \<open>YourScore\<close> with the number (\<open>None\<close> for
  \<open>'N/A'\<close>).\<close>

datatype description = Text string | YourScore "int option"

record toast =
  title :: string
  description :: description
  variant :: "string option"

text \<open>What a handler has done so far: the requests sent, in order, the notifications
  shown, in order, and the results passed to \<open>onTestComplete\<close>.\<close>

record 'srv world =
  server_state :: 'srv
  requests :: "request list"
  toasts :: "toast list"
  completed :: "TestResult list"

definition show_toast :: "toast \<Rightarrow> 'srv world \<Rightarrow> 'srv world" where
  "show_toast t w = w\<lparr>toasts := toasts w @ [t]\<rparr>"

definition call_generateTest ::
  "'srv api \<Rightarrow> string \<Rightarrow> 'srv world \<Rightarrow> (exn + GenerateTestResponse) \<times> 'srv world" where
  "call_generateTest api userId w =
     (let (r, s) = generateTest api userId (server_state w)
      in (r, w\<lparr>server_state := s, requests := requests w @ [GenerateTest userId]\<rparr>))"

definition call_getMcqs ::
  "'srv api \<Rightarrow> string \<Rightarrow> 'srv world \<Rightarrow> (exn + GetMcqsResponse) \<times> 'srv world" where
  "call_getMcqs api userId w =
     (let (r, s) = getMcqs api userId (server_state w)
      in (r, w\<lparr>server_state := s, requests := requests w @ [GetMcqs userId]\<rparr>))"

definition call_submitAnswers ::
  "'srv api \<Rightarrow> SubmitAnswersData \<Rightarrow> 'srv world \<Rightarrow> (exn + SubmitAnswersResponse) \<times> 'srv world" where
  "call_submitAnswers api body w =
     (let (r, s) = submitAnswers api body (server_state w)
      in (r, w\<lparr>server_state := s, requests := requests w @ [SubmitAnswers body]\<rparr>))"

definition call_getResultById ::
  "'srv api \<Rightarrow> string \<Rightarrow> 'srv world \<Rightarrow> (exn + TestResult) \<times> 'srv world" where
  "call_getResultById api resultId w =
     (let (r, s) = getResultById api resultId (server_state w)
      in (r, w\<lparr>server_state := s, requests := requests w @ [GetResultById resultId]\<rparr>))"

section \<open>The TestDisplay component\<close>

record TestDisplay_state =
  selectedAnswers :: "(nat \<times> int) list"
  isSubmitted :: bool
  isSubmitting :: bool
  currentQuestionIndex :: nat
  testResult :: "TestResult option"

text \<open>The \<open>useState\<close> initial values.\<close>

definition initial_state :: TestDisplay_state where
  "initial_state =
     \<lparr>selectedAnswers = [], isSubmitted = False, isSubmitting = False,
      currentQuestionIndex = 0, testResult = None\<rparr>"

definition handleAnswerSelect :: "nat \<Rightarrow> int \<Rightarrow> TestDisplay_state \<Rightarrow> TestDisplay_state" where
  "handleAnswerSelect questionIndex optionScore st =
     (if isSubmitted st then st
      else st\<lparr>selectedAnswers := obj_put questionIndex optionScore (selectedAnswers st)\<rparr>)"

definition handleNext :: "GenerateTestResponse \<Rightarrow> TestDisplay_state \<Rightarrow> TestDisplay_state" where
  "handleNext testData st =
     (if int (currentQuestionIndex st) < int (length (questions testData)) - 1
      then st\<lparr>currentQuestionIndex := currentQuestionIndex st + 1\<rparr>
      else st)"

definition handlePrevious :: "TestDisplay_state \<Rightarrow> TestDisplay_state" where
  "handlePrevious st =
     (if currentQuestionIndex st > 0
      then st\<lparr>currentQuestionIndex := currentQuestionIndex st - 1\<rparr>
      else st)"

text \<open>\<open>selectedAnswers[index]\<close>, the value the view reads to mark the selected option.\<close>

definition selectedAnswer :: "TestDisplay_state \<Rightarrow> nat \<Rightarrow> int option" where
  "selectedAnswer st index = map_of (selectedAnswers st) index"

text \<open>The entries of \<open>answersForAPI\<close> that fail
  \<open>!value || typeof value !== 'string' || ![...].includes(value)\<close>.\<close>

definition invalidAnswers :: "(string \<times> string) list \<Rightarrow> (string \<times> string) list" where
  "invalidAnswers afa = filter (\<lambda>(k, v). v = [] \<or> v \<notin> set likert_vocabulary) afa"

text \<open>\<open>Array.prototype.join\<close>.\<close>

fun join :: "string \<Rightarrow> string list \<Rightarrow> string" where
  "join sep [] = []"
| "join sep [x] = x"
| "join sep (x # y # ys) = x @ sep @ join sep (y # ys)"

text \<open>The request \<open>hardcodedTestRequest\<close>: the user, the document, and a fixed map of
  twenty answers.\<close>

definition hardcodedTestRequest :: "string \<Rightarrow> string \<Rightarrow> SubmitAnswersData" where
  "hardcodedTestRequest userId docId =
     \<lparr>user_id = userId, mcq_id = docId,
      answers =
        [(''1'', ''Agree''), (''2'', ''Strongly Agree''), (''3'', ''Neutral''), (''4'', ''Disagree''),
         (''5'', ''Strongly Agree''), (''6'', ''Agree''), (''7'', ''Strongly Agree''), (''8'', ''Neutral''),
         (''9'', ''Agree''), (''10'', ''Disagree''), (''11'', ''Strongly Agree''), (''12'', ''Neutral''),
         (''13'', ''Agree''), (''14'', ''Disagree''), (''15'', ''Strongly Agree''), (''16'', ''Disagree''),
         (''17'', ''Agree''), (''18'', ''Disagree''), (''19'', ''Strongly Agree''), (''20'', ''Neutral'')]\<rparr>"

text \<open>\<open>handleSubmit\<close> after a submission has resolved with \<open>submitResponse\<close>: the result
  identifier is \<open>submitResponse.result_id || (submitResponse.data && submitResponse.data.result_id)\<close>;
  with one, the detailed result is fetched, and a failed fetch falls back to
  \<open>submitResponse\<close>. Then the test is marked as submitted and the score is shown:
  \<open>submitResponse.data?.percentage || (... : 'N/A')\<close>, where no declared response has a
  \<open>data.data\<close>, so a falsy percentage prints as \<open>N/A\<close>.\<close>

definition resolveResult ::
  "'srv api \<Rightarrow> SubmitAnswersResponse \<Rightarrow> TestDisplay_state \<Rightarrow> 'srv world
     \<Rightarrow> TestDisplay_state \<times> 'srv world" where
  "resolveResult api submitResponse st w =
     (let resultId = js_or (top_result_id submitResponse)
                       (case data submitResponse of None \<Rightarrow> None | Some d \<Rightarrow> result_id d);
          (st1, w1) =
            (if truthy resultId
             then (case call_getResultById api (case resultId of Some r \<Rightarrow> r | None \<Rightarrow> []) w of
                     (Inr detailedResult, w') \<Rightarrow>
                       (st\<lparr>testResult := Some (if data detailedResult \<noteq> None then detailedResult
                                                 else submitResponse)\<rparr>, w')
                   | (Inl error, w') \<Rightarrow> (st\<lparr>testResult := Some submitResponse\<rparr>, w'))
             else (st\<lparr>testResult := Some submitResponse\<rparr>, w));
          st2 = st1\<lparr>isSubmitted := True\<rparr>;
          shown = (case data submitResponse of
                     None \<Rightarrow> None
                   | Some d \<Rightarrow> if percentage d \<noteq> 0 then Some (percentage d) else None)
      in (st2, show_toast \<lparr>title = ''Test Submitted Successfully!'',
                            description = YourScore shown, variant = None\<rparr> w1))"

text \<open>The body of the \<open>try\<close> block of \<open>handleSubmit\<close>: \<open>Inl\<close> is the error it throws.
  The requests sent before a \<open>throw\<close> stay sent.\<close>

definition submitBody ::
  "'srv api \<Rightarrow> GenerateTestResponse \<Rightarrow> string \<Rightarrow> TestDisplay_state \<Rightarrow> 'srv world
     \<Rightarrow> (exn + TestDisplay_state) \<times> 'srv world" where
  "submitBody api testData userId st w =
     (let documentId = getDocumentId testData in
      if userId = [] \<or> trim userId = []
      then (Inl (Error ''User ID is required. Please log in again.''), w)
      else if documentId = [] \<or> trim documentId = []
      then (Inl (Error ''Test document ID is required. Please generate a new test.''), w)
      else
        let afa = answersForAPI (selectedAnswers st) in
        if length afa = 0
        then (Inl (Error ''No answers provided. Please answer all questions.''), w)
        else if length (invalidAnswers afa) > 0
        then (Inl (Error (''Invalid answers detected: ''
                     @ join '', '' (map (\<lambda>(k, v). k @ '': '' @ v) (invalidAnswers afa)))), w)
        else
          let requestBody = \<lparr>user_id = userId, mcq_id = documentId, answers = afa\<rparr>;
              (mcqsResponse, w1) = call_getMcqs api userId w;
              (first_try, w2) = call_submitAnswers api requestBody w1
          in case first_try of
               Inr submitResponse \<Rightarrow>
                 (let (st', w') = resolveResult api submitResponse st w2 in (Inr st', w'))
             | Inl error \<Rightarrow>
                 (case call_submitAnswers api (hardcodedTestRequest userId documentId) w2 of
                    (Inr submitResponse, w3) \<Rightarrow>
                      (let (st', w') = resolveResult api submitResponse st w3 in (Inr st', w'))
                  | (Inl hardcodedError, w3) \<Rightarrow> (Inl hardcodedError, w3)))"

text \<open>\<open>handleSubmit\<close>: the local completeness check, then the \<open>try\<close> block with its
  \<open>catch\<close> (a notification with the error's message) and its \<open>finally\<close>.\<close>

definition handleSubmit ::
  "'srv api \<Rightarrow> GenerateTestResponse \<Rightarrow> string \<Rightarrow> TestDisplay_state \<Rightarrow> 'srv world
     \<Rightarrow> TestDisplay_state \<times> 'srv world" where
  "handleSubmit api testData userId st w =
     (if length (selectedAnswers st) \<noteq> length (questions testData)
      then (st, show_toast \<lparr>title = ''Incomplete Test'',
                            description = Text ''Please answer all questions before submitting.'',
                            variant = Some ''destructive''\<rparr> w)
      else
        let st1 = st\<lparr>isSubmitting := True, testResult := None\<rparr> in
        case submitBody api testData userId st1 w of
          (Inr st2, w2) \<Rightarrow> (st2\<lparr>isSubmitting := False\<rparr>, w2)
        | (Inl error, w2) \<Rightarrow>
            (st1\<lparr>isSubmitting := False\<rparr>,
             show_toast \<lparr>title = ''Submission Failed'', description = Text (exn_message error),
                         variant = Some ''destructive''\<rparr> w2))"

section \<open>The ADOFTestDisplay component\<close>

record ADOF_state =
  adof_testData :: "GenerateTestResponse option"
  isLoadingTest :: bool
  adof_selectedAnswers :: "(nat \<times> int) list"
  adof_currentQuestionIndex :: nat
  adof_isSubmitting :: bool

text \<open>The identifier of \<open>ADOFTestDisplay.handleSubmit\<close>, the same chain written inline:
  \<open>testData.mcqs_id || testData.document_id || testData.documentId || testData.id || testData._id || ''\<close>.\<close>

definition ADOF_documentId :: "GenerateTestResponse \<Rightarrow> string" where
  "ADOF_documentId testData =
     (case js_or (js_or (js_or (js_or (js_or (mcqs_id testData) (document_id testData))
                 (documentId testData)) (id' testData)) (underscore_id testData)) (Some [])
      of Some s \<Rightarrow> s | None \<Rightarrow> [])"

text \<open>The \<open>try\<close> block of \<open>ADOFTestDisplay.handleSubmit\<close>. The result identifier is
  \<open>submitResponse.data.result_id\<close>: a missing \<open>data\<close> throws a \<open>TypeError\<close> (the messages
  are V8's), a missing \<open>result_id\<close> goes into the URL as \<open>undefined\<close>. Every rejected call
  leaves the block.\<close>

definition ADOF_submitBody ::
  "'srv api \<Rightarrow> GenerateTestResponse \<Rightarrow> string \<Rightarrow> ADOF_state \<Rightarrow> 'srv world
     \<Rightarrow> (exn + unit) \<times> 'srv world" where
  "ADOF_submitBody api testData userId st w =
     (let documentId = ADOF_documentId testData in
      if documentId = []
      then (Inl (Error ''Test document ID is missing. Please generate a new test.''), w)
      else
        let requestBody = \<lparr>user_id = userId, mcq_id = documentId,
                             answers = answersForAPI (adof_selectedAnswers st)\<rparr>
        in case call_submitAnswers api requestBody w of
             (Inl error, w1) \<Rightarrow> (Inl error, w1)
           | (Inr submitResponse, w1) \<Rightarrow>
               (case data submitResponse of
                  None \<Rightarrow>
                    (Inl (TypeError ''Cannot read properties of undefined (reading 'result_id')''), w1)
                | Some d \<Rightarrow>
                    (case call_getResultById api
                            (case result_id d of Some r \<Rightarrow> r | None \<Rightarrow> ''undefined'') w1 of
                       (Inl error, w2) \<Rightarrow> (Inl error, w2)
                     | (Inr resultResponse, w2) \<Rightarrow>
                         (case data resultResponse of
                            None \<Rightarrow>
                              (Inl (TypeError ''Cannot read properties of undefined (reading 'percentage')''), w2)
                          | Some rd \<Rightarrow>
                              (let w3 = show_toast \<lparr>title = ''Assessment Completed!'',
                                                     description = YourScore (Some (percentage rd)),
                                                     variant = None\<rparr> w2
                               in (Inr (), w3\<lparr>completed := completed w3 @ [resultResponse]\<rparr>))))))"

definition ADOF_handleSubmit ::
  "'srv api \<Rightarrow> string \<Rightarrow> ADOF_state \<Rightarrow> 'srv world \<Rightarrow> ADOF_state \<times> 'srv world" where
  "ADOF_handleSubmit api userId st w =
     (case adof_testData st of
        None \<Rightarrow> (st, w)
      | Some testData \<Rightarrow>
         (if length (adof_selectedAnswers st) \<noteq> length (questions testData)
          then (st, show_toast \<lparr>title = ''Incomplete Test'',
                                description = Text ''Please answer all questions before submitting.'',
                                variant = Some ''destructive''\<rparr> w)
          else
            let st1 = st\<lparr>adof_isSubmitting := True\<rparr> in
            case ADOF_submitBody api testData userId st1 w of
              (Inr u, w2) \<Rightarrow> (st1\<lparr>adof_isSubmitting := False\<rparr>, w2)
            | (Inl error, w2) \<Rightarrow>
                (st1\<lparr>adof_isSubmitting := False\<rparr>,
                 show_toast \<lparr>title = ''Submission Failed'', description = Text (exn_message error),
                             variant = Some ''destructive''\<rparr> w2)))"

section \<open>The Dashboard component: test acquisition\<close>

record User =
  User_id :: string

record Dashboard_state =
  isGenerating :: bool
  generatedTest :: "GenerateTestResponse option"

text \<open>One property of \<open>{...testData, ...mcqsData}\<close>: the one of \<open>mcqsData\<close> when it has
  the property (also with the value \<open>null\<close>), the one of \<open>testData\<close> otherwise.\<close>

fun spread :: "'a option \<Rightarrow> 'a property \<Rightarrow> 'a option" where
  "spread old Absent = old"
| "spread old Null = None"
| "spread old (Present v) = Some v"

text \<open>The object
  \<open>{...testData, ...mcqsData, mcqs_id: mcqsData.mcqs_id || mcqsData.document_id || testData.mcqs_id}\<close>:
  every property of \<open>mcqsData\<close> replaces the one of \<open>testData\<close>, the others stay, and
  \<open>mcqs_id\<close> is set last. (\<open>questions\<close> has a value where the object is built.)\<close>

definition mergeMcqs :: "GenerateTestResponse \<Rightarrow> GetMcqsResponse \<Rightarrow> GenerateTestResponse" where
  "mergeMcqs testData mcqsData =
     testData\<lparr>
       document_id := spread (document_id testData) (gm_document_id mcqsData),
       documentId := spread (documentId testData) (gm_documentId mcqsData),
       id' := spread (id' testData) (gm_id mcqsData),
       underscore_id := spread (underscore_id testData) (gm_underscore_id mcqsData),
       questions := (case gm_questions mcqsData of Present qs \<Rightarrow> qs | _ \<Rightarrow> questions testData),
       message := spread (message testData) (gm_message mcqsData),
       test_trait := spread (test_trait testData) (gm_trait mcqsData),
       mcqs_id := js_or (js_or (value_of (gm_mcqs_id mcqsData)) (value_of (gm_document_id mcqsData)))
                    (mcqs_id testData)\<rparr>"

text \<open>\<open>mcqsData.questions && mcqsData.questions.length > 0\<close>.\<close>

definition hasQuestions :: "GetMcqsResponse \<Rightarrow> bool" where
  "hasQuestions mcqsData =
     (case gm_questions mcqsData of Present qs \<Rightarrow> length qs > 0 | _ \<Rightarrow> False)"

definition handleGenerateTest ::
  "'srv api \<Rightarrow> User option \<Rightarrow> Dashboard_state \<Rightarrow> 'srv world \<Rightarrow> Dashboard_state \<times> 'srv world" where
  "handleGenerateTest api user st w =
     (case user of
        None \<Rightarrow> (st, w)
      | Some u \<Rightarrow>
         (let st1 = st\<lparr>isGenerating := True\<rparr> in
          case call_generateTest api (User_id u) w of
            (Inl error, w1) \<Rightarrow>
              (st1\<lparr>isGenerating := False\<rparr>,
               show_toast \<lparr>title = ''Error'', description = Text (exn_message error),
                           variant = Some ''destructive''\<rparr> w1)
          | (Inr testData, w1) \<Rightarrow>
              (case call_getMcqs api (User_id u) w1 of
                 (Inr mcqsData, w2) \<Rightarrow>
                   (st1\<lparr>generatedTest := Some (if hasQuestions mcqsData then mergeMcqs testData mcqsData
                                                else testData),
                         isGenerating := False\<rparr>,
                    show_toast \<lparr>title = ''Test Generated Successfully!'',
                                description = Text ''Your personalized test is ready.'',
                                variant = None\<rparr> w2)
               | (Inl mcqError, w2) \<Rightarrow>
                   (st1\<lparr>generatedTest := Some testData, isGenerating := False\<rparr>,
                    show_toast \<lparr>title = ''Test Generated Successfully!'',
                                description = Text ''Your personalized test is ready.'',
                                variant = None\<rparr> w2))))"


section \<open>The API client\<close>

text \<open>What \<open>fetch\<close> resolves with: \<open>response.ok\<close>, \<open>response.status\<close>,
  \<open>response.statusText\<close>, and the body as \<open>response.text()\<close> reads it.\<close>

record http_response =
  ok :: bool
  status :: nat
  statusText :: string
  body_text :: string

text \<open>A number as \<open>JSON.parse\<close> gives it: a double, which is finite (a real number;
  both zeros are \<open>Finite 0\<close>) or one of the infinities that a literal out of range
  parses to.\<close>

datatype number = Finite real | PlusInfinity | MinusInfinity

text \<open>A parsed JSON value (an object is the list of its properties, each name once;
  \<open>map_of\<close> reads one). \<open>JSON.parse\<close> is a
  parameter of the client's functions: it gives the value, or the message of the
  \<open>SyntaxError\<close> it throws.\<close>

datatype json =
  JNull
| JBool bool
| JNum number
| JStr string
| JArr "json list"
| JObj "(string \<times> json) list"

type_synonym json_parser = "string \<Rightarrow> string + json"

fun json_truthy :: "json \<Rightarrow> bool" where
  "json_truthy JNull = False"
| "json_truthy (JBool b) = b"
| "json_truthy (JNum n) = (n \<noteq> Finite 0)"
| "json_truthy (JStr s) = (s \<noteq> [])"
| "json_truthy (JArr xs) = True"
| "json_truthy (JObj kvs) = True"

text \<open>\<open>value.name\<close> for the names \<open>error\<close> and \<open>message\<close>: a \<open>TypeError\<close> on
  \<open>null\<close>, the property of an object, \<open>undefined\<close> (\<open>None\<close>) on every other value.\<close>

fun json_get :: "json \<Rightarrow> string \<Rightarrow> exn + json option" where
  "json_get JNull name = Inl (TypeError (''Cannot read properties of null (reading '' @ [CHR 0x27] @ name @ [CHR 0x27] @ '')''))"
| "json_get (JObj kvs) name = Inr (map_of kvs name)"
| "json_get v name = Inr None"

text \<open>\<open>a || b\<close> on values that may be \<open>undefined\<close>.\<close>

definition json_or :: "json option \<Rightarrow> json option \<Rightarrow> json option" where
  "json_or a b = (case a of None \<Rightarrow> b | Some v \<Rightarrow> if json_truthy v then a else b)"

text \<open>The conversion of a value to a string that \<open>new Error(value)\<close> applies to an
  argument that is not a string is the engine's, and a parameter of the client's functions
  as \<open>JSON.parse\<close> is: it gives the string (the number in the engine's notation,
  \<open>[object Object]\<close>, the joined elements of an array), or the \<open>TypeError\<close> it throws
  (for an object with an own \<open>toString\<close> property, which hides the inherited
  function, or an array that holds one).\<close>

type_synonym to_string = "json \<Rightarrow> exn + string"

text \<open>What \<open>throw new Error(value)\<close> throws: the error with the string as its message,
  or with the conversion of a value that is not a string, or the error of the
  conversion.\<close>

definition new_Error :: "to_string \<Rightarrow> json \<Rightarrow> exn" where
  "new_Error ToString v =
     (case v of
        JStr s \<Rightarrow> Error s
      | _ \<Rightarrow> (case ToString v of Inl typeError \<Rightarrow> typeError | Inr s \<Rightarrow> Error s))"

text \<open>The block that \<open>getMcqs\<close>, \<open>submitAnswers\<close> and \<open>getResultById\<close> run on a
  response that is not ok, with their own default message:
  \<open>let errorMessage = fallback;
    try { const errorData = JSON.parse(responseText);
          errorMessage = errorData.error || errorData.message || errorMessage; }
    catch { errorMessage = responseText || errorMessage; }\<close>
  The result is the value that \<open>errorMessage\<close> holds after the block: a string, or the
  truthy value of a property.\<close>

definition errorMessageOf :: "json_parser \<Rightarrow> string \<Rightarrow> string \<Rightarrow> json" where
  "errorMessageOf JSON_parse fallback responseText =
     (let caught = JStr (if responseText \<noteq> [] then responseText else fallback) in
      case JSON_parse responseText of
        Inl syntaxError \<Rightarrow> caught
      | Inr errorData \<Rightarrow>
          (case json_get errorData ''error'' of
             Inl typeError \<Rightarrow> caught
           | Inr e \<Rightarrow>
               (case json_get errorData ''message'' of
                  Inl typeError \<Rightarrow> caught
                | Inr m \<Rightarrow>
                    (case json_or (json_or e m) (Some (JStr fallback)) of
                       Some v \<Rightarrow> v
                     | None \<Rightarrow> JStr fallback))))"

text \<open>The functions of \<open>api\<close>, from what \<open>fetch\<close> gave (\<open>Inl\<close> when it rejected) to what
  the function resolves with (\<open>Inr\<close>) or throws (\<open>Inl\<close>). The three functions that
  build their message from the parsed text throw it with \<open>throw new Error(errorMessage)\<close>,
  after and outside the inner \<open>try\<close>.\<close>

definition api_signup :: "json_parser \<Rightarrow> exn + http_response \<Rightarrow> exn + json" where
  "api_signup JSON_parse fetched =
     (case fetched of
        Inl e \<Rightarrow> Inl e
      | Inr response \<Rightarrow>
          if \<not> ok response
          then Inl (Error (if body_text response \<noteq> [] then body_text response else ''Signup failed''))
          else (case JSON_parse (body_text response) of
                  Inl m \<Rightarrow> Inl (SyntaxError m)
                | Inr v \<Rightarrow> Inr v))"

definition api_signin :: "json_parser \<Rightarrow> exn + http_response \<Rightarrow> exn + json" where
  "api_signin JSON_parse fetched =
     (case fetched of
        Inl e \<Rightarrow> Inl e
      | Inr response \<Rightarrow>
          if \<not> ok response
          then Inl (Error (if body_text response \<noteq> [] then body_text response else ''Signin failed''))
          else (case JSON_parse (body_text response) of
                  Inl m \<Rightarrow> Inl (SyntaxError m)
                | Inr v \<Rightarrow> Inr v))"

definition api_generateTest :: "json_parser \<Rightarrow> exn + http_response \<Rightarrow> exn + json" where
  "api_generateTest JSON_parse fetched =
     (case fetched of
        Inl e \<Rightarrow> Inl e
      | Inr response \<Rightarrow>
          if \<not> ok response
          then Inl (Error (if body_text response \<noteq> [] then body_text response
                           else ''Test generation failed''))
          else (case JSON_parse (body_text response) of
                  Inl m \<Rightarrow> Inl (SyntaxError m)
                | Inr v \<Rightarrow> Inr v))"

definition api_getMcqs :: "json_parser \<Rightarrow> to_string \<Rightarrow> exn + http_response \<Rightarrow> exn + json" where
  "api_getMcqs JSON_parse ToString fetched =
     (case fetched of
        Inl e \<Rightarrow> Inl e
      | Inr response \<Rightarrow>
          let responseText = body_text response in
          if \<not> ok response
          then Inl (new_Error ToString (errorMessageOf JSON_parse ''Failed to get MCQs'' responseText))
          else (case JSON_parse responseText of
                  Inl m \<Rightarrow> Inl (Error ''Invalid response format from server'')
                | Inr v \<Rightarrow> Inr v))"

definition api_submitAnswers :: "json_parser \<Rightarrow> to_string \<Rightarrow> exn + http_response \<Rightarrow> exn + json" where
  "api_submitAnswers JSON_parse ToString fetched =
     (case fetched of
        Inl e \<Rightarrow> Inl e
      | Inr response \<Rightarrow>
          let responseText = body_text response in
          if \<not> ok response
          then Inl (new_Error ToString (errorMessageOf JSON_parse ''Answer submission failed'' responseText))
          else (case JSON_parse responseText of
                  Inl m \<Rightarrow> Inl (Error ''Invalid response format from server'')
                | Inr v \<Rightarrow> Inr v))"

definition api_getResultById :: "json_parser \<Rightarrow> to_string \<Rightarrow> exn + http_response \<Rightarrow> exn + json" where
  "api_getResultById JSON_parse ToString fetched =
     (case fetched of
        Inl e \<Rightarrow> Inl e
      | Inr response \<Rightarrow>
          let responseText = body_text response in
          if \<not> ok response
          then Inl (new_Error ToString (errorMessageOf JSON_parse ''Failed to fetch result'' responseText))
          else (case JSON_parse responseText of
                  Inl m \<Rightarrow> Inl (Error ''Invalid response format from server'')
                | Inr v \<Rightarrow> Inr v))"

text \<open>\<open>getJobs\<close> and \<open>submitUserData\<close> read the text of a response that is not ok, log
  it, and throw a message made of the status; their \<open>catch\<close> logs and throws again.\<close>

definition api_getJobs :: "json_parser \<Rightarrow> exn + http_response \<Rightarrow> exn + json" where
  "api_getJobs JSON_parse fetched =
     (case fetched of
        Inl e \<Rightarrow> Inl e
      | Inr response \<Rightarrow>
          if \<not> ok response
          then Inl (Error (''Failed to fetch jobs: '' @ toString (status response) @ '' ''
                           @ statusText response))
          else (case JSON_parse (body_text response) of
                  Inl m \<Rightarrow> Inl (SyntaxError m)
                | Inr (JArr jobs) \<Rightarrow> Inr (JArr jobs)
                | Inr v \<Rightarrow> Inl (Error ''Invalid response format: Expected an array of jobs'')))"

definition api_submitUserData :: "json_parser \<Rightarrow> exn + http_response \<Rightarrow> exn + json" where
  "api_submitUserData JSON_parse fetched =
     (case fetched of
        Inl e \<Rightarrow> Inl e
      | Inr response \<Rightarrow>
          if \<not> ok response
          then Inl (Error (''Failed to submit data: '' @ toString (status response) @ '' ''
                           @ statusText response))
          else (case JSON_parse (body_text response) of
                  Inl m \<Rightarrow> Inl (SyntaxError m)
                | Inr v \<Rightarrow> Inr v))"


section \<open>Sequences of events\<close>

text \<open>The events of \<open>TestDisplay\<close>: a click on an option of the question shown, on
  \<open>Next\<close>, on \<open>Previous\<close>, on \<open>Submit Test\<close>.\<close>

datatype event = Select int | Next | Previous | Submit

fun apply_event ::
  "'srv api \<Rightarrow> GenerateTestResponse \<Rightarrow> string \<Rightarrow> event \<Rightarrow> TestDisplay_state \<times> 'srv world
     \<Rightarrow> TestDisplay_state \<times> 'srv world" where
  "apply_event api testData userId (Select optionScore) (st, w) =
     (handleAnswerSelect (currentQuestionIndex st) optionScore st, w)"
| "apply_event api testData userId Next (st, w) = (handleNext testData st, w)"
| "apply_event api testData userId Previous (st, w) = (handlePrevious st, w)"
| "apply_event api testData userId Submit (st, w) = handleSubmit api testData userId st w"

definition run ::
  "'srv api \<Rightarrow> GenerateTestResponse \<Rightarrow> string \<Rightarrow> event list \<Rightarrow> TestDisplay_state \<times> 'srv world
     \<Rightarrow> TestDisplay_state \<times> 'srv world" where
  "run api testData userId events sw = fold (apply_event api testData userId) events sw"

text \<open>What holds of \<open>selectedAnswers\<close> after every sequence of events, for a test
  that has a question: its keys are in ascending order and are indices of questions, as
  is the index of the question shown.\<close>

definition answers_invariant :: "GenerateTestResponse \<Rightarrow> TestDisplay_state \<Rightarrow> bool" where
  "answers_invariant testData st =
     (sorted_wrt (<) (map fst (selectedAnswers st))
      \<and> (length (questions testData) = 0
           \<or> (currentQuestionIndex st < length (questions testData)
               \<and> list_all (\<lambda>k. k < length (questions testData)) (map fst (selectedAnswers st)))))"

section \<open>Example data\<close>

text \<open>A generated test with one question whose only identifier is \<open>document_id\<close>, the
  same test without any identifier, a result, and three servers: one that accepts every
  request, one that is unavailable at the first submission, one that accepts the
  submission and then fails to return the result.\<close>

definition example_question :: TestQuestion where
  "example_question =
     \<lparr>question = ''I enjoy working in teams.'', question_no = 1, trait = ''Teamwork'',
      options = [\<lparr>score = 1, text_ = ''Strongly Disagree''\<rparr>, \<lparr>score = 2, text_ = ''Disagree''\<rparr>,
                 \<lparr>score = 3, text_ = ''Neutral''\<rparr>, \<lparr>score = 4, text_ = ''Agree''\<rparr>,
                 \<lparr>score = 5, text_ = ''Strongly Agree''\<rparr>]\<rparr>"

definition example_test :: GenerateTestResponse where
  "example_test =
     \<lparr>mcqs_id = None, document_id = Some ''doc-42'', documentId = None, id' = None,
      underscore_id = None, message = Some ''Test generated'', questions = [example_question],
      test_trait = None\<rparr>"

definition test_without_id :: GenerateTestResponse where
  "test_without_id = example_test\<lparr>document_id := None\<rparr>"

definition example_result :: TestResult where
  "example_result =
     \<lparr>top_result_id = None,
      data = Some \<lparr>analysis = [(''Teamwork'', ''High'')], max_score = 5, rd_mcq_id = ''doc-42'',
                    percentage = 80, result_id = Some ''res-1'', total_score = 4,
                    rd_user_id = ''u1''\<rparr>,
      tr_message = ''Answers submitted''\<rparr>"

definition example_mcqs :: GetMcqsResponse where
  "example_mcqs =
     \<lparr>gm_mcqs_id = Present ''mcq-7'', gm_document_id = Absent, gm_documentId = Absent,
      gm_id = Absent, gm_underscore_id = Absent,
      gm_questions = Present [example_question, example_question], gm_message = Absent,
      gm_trait = Absent\<rparr>"

definition accepting_api :: "nat api" where
  "accepting_api =
     \<lparr>generateTest = (\<lambda>userId s. (Inr example_test, s)),
      getMcqs = (\<lambda>userId s. (Inr example_mcqs, s)),
      submitAnswers = (\<lambda>body s. (Inr example_result, s + 1)),
      getResultById = (\<lambda>resultId s. (Inr example_result, s))\<rparr>"

definition unavailable_once_api :: "nat api" where
  "unavailable_once_api =
     accepting_api\<lparr>submitAnswers :=
       (\<lambda>body s. if s = 0 then (Inl (Error ''Service Unavailable''), 1)
                  else (Inr example_result, s + 1))\<rparr>"

definition no_detail_api :: "nat api" where
  "no_detail_api =
     accepting_api\<lparr>getResultById := (\<lambda>resultId s. (Inl (Error ''Failed to fetch result''), s))\<rparr>"

definition empty_world :: "nat world" where
  "empty_world = \<lparr>server_state = 0, requests = [], toasts = [], completed = []\<rparr>"

text \<open>\<open>TestDisplay\<close> and \<open>ADOFTestDisplay\<close> after the one question has been answered
  with \<open>Agree\<close>.\<close>

definition answered_state :: TestDisplay_state where
  "answered_state = handleAnswerSelect 0 4 initial_state"

definition adof_answered_state :: ADOF_state where
  "adof_answered_state =
     \<lparr>adof_testData = Some example_test, isLoadingTest = False, adof_selectedAnswers = [(0, 4)],
      adof_currentQuestionIndex = 0, adof_isSubmitting = False\<rparr>"


text \<open>The example test with a second question; a server whose stored test has no
  questions, one whose stored test cannot be fetched; a signed-in user and the dashboard
  before a test is generated.\<close>

definition two_question_test :: GenerateTestResponse where
  "two_question_test = example_test\<lparr>questions := [example_question, example_question]\<rparr>"







text \<open>\<open>JSON.parse\<close> at the texts of the examples: three objects with one property
  each; every other text is taken as not being JSON, which is so for the texts that the
  examples use. The conversion to a string at the values of the examples: \<open>null\<close> and the
  booleans (no example converts another value). And what \<open>fetch\<close> resolves with for a
  response that is not ok.\<close>

definition JSON_parse_examples :: json_parser where
  "JSON_parse_examples s =
     (if s = ''{\"error\":\"Email already registered\"}''
      then Inr (JObj [(''error'', JStr ''Email already registered'')])
      else if s = ''{\"message\":\"Result not found\"}''
      then Inr (JObj [(''message'', JStr ''Result not found'')])
      else if s = ''{\"error\":true}''
      then Inr (JObj [(''error'', JBool True)])
      else Inl ''Unexpected token'')"

definition ToString_examples :: to_string where
  "ToString_examples v =
     (case v of
        JNull \<Rightarrow> Inr ''null''
      | JBool b \<Rightarrow> Inr (if b then ''true'' else ''false'')
      | JStr s \<Rightarrow> Inr s
      | _ \<Rightarrow> Inl (TypeError ''Cannot convert object to primitive value''))"

definition error_response :: "nat \<Rightarrow> string \<Rightarrow> string \<Rightarrow> exn + http_response" where
  "error_response code reason content =
     Inr \<lparr>ok = False, status = code, statusText = reason, body_text = content\<rparr>"

section \<open>Properties\<close>

text \<open>The definitions that the evaluation of an example unfolds.\<close>

lemmas eval_defs = toString.simps handleSubmit_def submitBody_def resolveResult_def call_getMcqs_def
  call_submitAnswers_def call_getResultById_def call_generateTest_def answersForAPI_def Object_entries_def
  questionKey_def parseInt_def is_digit_def digit_value_def digit_def responseTextOf_def
  getDocumentId_def js_or_def truthy_def trim_def is_whitespace_def invalidAnswers_def
  likert_vocabulary_def show_toast_def Let_def example_test_def example_question_def
  example_result_def accepting_api_def empty_world_def answered_state_def handleAnswerSelect_def
  initial_state_def hardcodedTestRequest_def ADOF_handleSubmit_def ADOF_submitBody_def ADOF_documentId_def
  adof_answered_state_def unavailable_once_api_def no_detail_api_def test_without_id_def
  example_mcqs_def handleGenerateTest_def hasQuestions_def mergeMcqs_def

subsection \<open>What a handler sends\<close>

lemma first_non_empty_chain:
  "(case js_or (js_or (js_or (js_or (js_or a b) c) d) e) (Some []) of Some s \<Rightarrow> s | None \<Rightarrow> [])
     = first_non_empty [a, b, c, d, e]"
  by (cases a; cases b; cases c; cases d; cases e) (simp_all add: js_or_def truthy_def)

lemma call_getMcqs_world:
  "call_getMcqs api u w = (r, w') \<Longrightarrow>
     requests w' = requests w @ [GetMcqs u] \<and> toasts w' = toasts w \<and> completed w' = completed w"
  by (auto simp: call_getMcqs_def Let_def split: prod.splits)

lemma call_generateTest_world:
  "call_generateTest api u w = (r, w') \<Longrightarrow>
     requests w' = requests w @ [GenerateTest u] \<and> toasts w' = toasts w \<and> completed w' = completed w"
  by (auto simp: call_generateTest_def Let_def split: prod.splits)

lemma call_submitAnswers_world:
  "call_submitAnswers api b w = (r, w') \<Longrightarrow>
     requests w' = requests w @ [SubmitAnswers b] \<and> toasts w' = toasts w \<and> completed w' = completed w"
  by (auto simp: call_submitAnswers_def Let_def split: prod.splits)

lemma call_getResultById_world:
  "call_getResultById api i w = (r, w') \<Longrightarrow>
     requests w' = requests w @ [GetResultById i] \<and> toasts w' = toasts w \<and> completed w' = completed w"
  by (auto simp: call_getResultById_def Let_def split: prod.splits)

lemma show_toast_world [simp]:
  "requests (show_toast t w) = requests w" "toasts (show_toast t w) = toasts w @ [t]"
  "completed (show_toast t w) = completed w" "server_state (show_toast t w) = server_state w"
  by (simp_all add: show_toast_def)

lemma resolveResult_requests:
  assumes "resolveResult api sr st w = (st', w')"
  shows "requests w' = requests w \<or> (\<exists>i. requests w' = requests w @ [GetResultById i])"
  using assms
  by (auto simp: resolveResult_def Let_def split: prod.splits sum.splits if_splits
           dest!: call_getResultById_world)

lemma submitBody_requests:
  assumes "submitBody api testData userId st w = (r, w')"
  shows "\<exists>rs. requests w' = requests w @ rs \<and>
           (\<forall>b. SubmitAnswers b \<in> set rs \<longrightarrow>
              mcq_id b = getDocumentId testData \<and> user_id b = userId)"
  using assms
  apply (simp add: submitBody_def Let_def split: prod.splits sum.splits if_splits)
  apply (auto dest!: call_getMcqs_world call_submitAnswers_world resolveResult_requests simp: hardcodedTestRequest_def)
  done

lemma handleSubmit_requests:
  "\<exists>rs. requests (snd (handleSubmit api testData userId st w)) = requests w @ rs \<and>
        (\<forall>b. SubmitAnswers b \<in> set rs \<longrightarrow> mcq_id b = getDocumentId testData \<and> user_id b = userId) \<and>
        (rs \<noteq> [] \<longrightarrow> length (selectedAnswers st) = length (questions testData))"
proof (cases "length (selectedAnswers st) = length (questions testData)")
  case False
  then show ?thesis by (simp add: handleSubmit_def)
next
  case True
  obtain r w' where b: "submitBody api testData userId (st\<lparr>isSubmitting := True, testResult := None\<rparr>) w = (r, w')"
    by (cases "submitBody api testData userId (st\<lparr>isSubmitting := True, testResult := None\<rparr>) w")
  from submitBody_requests [OF b] obtain rs where
    rs: "requests w' = requests w @ rs"
        "\<forall>b. SubmitAnswers b \<in> set rs \<longrightarrow> mcq_id b = getDocumentId testData \<and> user_id b = userId"
    by blast
  have "requests (snd (handleSubmit api testData userId st w)) = requests w'"
    using True b by (cases r) (simp_all add: handleSubmit_def Let_def)
  with rs True show ?thesis by auto
qed

lemma ADOF_submitBody_requests:
  assumes "ADOF_submitBody api testData userId st w = (r, w')"
  shows "\<exists>rs. requests w' = requests w @ rs \<and>
           (\<forall>b. SubmitAnswers b \<in> set rs \<longrightarrow>
              mcq_id b = ADOF_documentId testData \<and> user_id b = userId)"
  using assms
  apply (simp add: ADOF_submitBody_def Let_def split: prod.splits sum.splits if_splits option.splits)
  apply (auto dest!: call_getResultById_world call_submitAnswers_world)
  done

lemma ADOF_handleSubmit_requests:
  assumes "adof_testData st = Some testData"
  shows "\<exists>rs. requests (snd (ADOF_handleSubmit api userId st w)) = requests w @ rs \<and>
        (\<forall>b. SubmitAnswers b \<in> set rs \<longrightarrow> mcq_id b = ADOF_documentId testData \<and> user_id b = userId) \<and>
        (rs \<noteq> [] \<longrightarrow> length (adof_selectedAnswers st) = length (questions testData))"
proof (cases "length (adof_selectedAnswers st) = length (questions testData)")
  case False
  then show ?thesis using assms by (simp add: ADOF_handleSubmit_def)
next
  case True
  obtain r w' where b: "ADOF_submitBody api testData userId (st\<lparr>adof_isSubmitting := True\<rparr>) w = (r, w')"
    by (cases "ADOF_submitBody api testData userId (st\<lparr>adof_isSubmitting := True\<rparr>) w")
  from ADOF_submitBody_requests [OF b] obtain rs where
    rs: "requests w' = requests w @ rs"
        "\<forall>b. SubmitAnswers b \<in> set rs \<longrightarrow> mcq_id b = ADOF_documentId testData \<and> user_id b = userId"
    by blast
  have "requests (snd (ADOF_handleSubmit api userId st w)) = requests w'"
    using True b assms by (cases r) (simp_all add: ADOF_handleSubmit_def Let_def)
  with rs True show ?thesis by auto
qed

subsection \<open>Identifier resolution\<close>

text \<open>Claim C1. The identifier that both components resolve from a test response is the
  first non-empty value among \<open>mcqs_id\<close>, \<open>document_id\<close>, \<open>documentId\<close>, \<open>id\<close>, \<open>_id\<close>, in
  this order; a response without a (non-empty) \<open>mcqs_id\<close> and with a non-empty
  \<open>document_id\<close> resolves to its \<open>document_id\<close>; and every submission request that
  \<open>handleSubmit\<close> sends carries the resolved identifier as its \<open>mcq_id\<close>.\<close>

theorem identifier_resolution:
  "getDocumentId testData =
     first_non_empty [mcqs_id testData, document_id testData, documentId testData, id' testData,
                      underscore_id testData]
   \<and> ADOF_documentId testData =
     first_non_empty [mcqs_id testData, document_id testData, documentId testData, id' testData,
                      underscore_id testData]
   \<and> (\<not> truthy (mcqs_id testData) \<and> document_id testData = Some d \<and> d \<noteq> []
        \<longrightarrow> getDocumentId testData = d \<and> ADOF_documentId testData = d)
   \<and> (\<forall>body. SubmitAnswers body \<in> set (requests (snd (handleSubmit api testData userId st w)))
        \<longrightarrow> SubmitAnswers body \<in> set (requests w) \<or> mcq_id body = getDocumentId testData)
   \<and> (adof_testData ast = Some testData
        \<longrightarrow> (\<forall>body. SubmitAnswers body \<in> set (requests (snd (ADOF_handleSubmit api userId ast w)))
               \<longrightarrow> SubmitAnswers body \<in> set (requests w) \<or> mcq_id body = ADOF_documentId testData))"
proof -
  have a: "getDocumentId testData =
     first_non_empty [mcqs_id testData, document_id testData, documentId testData, id' testData,
                      underscore_id testData]"
    unfolding getDocumentId_def by (rule first_non_empty_chain)
  have b: "ADOF_documentId testData =
     first_non_empty [mcqs_id testData, document_id testData, documentId testData, id' testData,
                      underscore_id testData]"
    unfolding ADOF_documentId_def by (rule first_non_empty_chain)
  have c: "\<not> truthy (mcqs_id testData) \<and> document_id testData = Some d \<and> d \<noteq> []
        \<longrightarrow> getDocumentId testData = d \<and> ADOF_documentId testData = d"
    unfolding a b by (cases "mcqs_id testData") (auto simp: truthy_def)
  have d: "\<forall>body. SubmitAnswers body \<in> set (requests (snd (handleSubmit api testData userId st w)))
        \<longrightarrow> SubmitAnswers body \<in> set (requests w) \<or> mcq_id body = getDocumentId testData"
    using handleSubmit_requests [of api testData userId st w] by auto
  have e: "adof_testData ast = Some testData
        \<longrightarrow> (\<forall>body. SubmitAnswers body \<in> set (requests (snd (ADOF_handleSubmit api userId ast w)))
               \<longrightarrow> SubmitAnswers body \<in> set (requests w) \<or> mcq_id body = ADOF_documentId testData)"
    using ADOF_handleSubmit_requests [of ast testData api userId w] by auto
  from a b c d e show ?thesis by blast
qed

text \<open>The example test has no \<open>mcqs_id\<close> and the \<open>document_id\<close> \<open>doc-42\<close>: both
  components resolve it and send it.\<close>

theorem identifier_resolution_witness:
  "\<not> truthy (mcqs_id example_test) \<and> document_id example_test = Some ''doc-42''
   \<and> getDocumentId example_test = ''doc-42'' \<and> ADOF_documentId example_test = ''doc-42''
   \<and> requests (snd (handleSubmit accepting_api example_test ''u1'' answered_state empty_world)) =
       [GetMcqs ''u1'',
        SubmitAnswers \<lparr>user_id = ''u1'', mcq_id = ''doc-42'', answers = [(''1'', ''Agree'')]\<rparr>,
        GetResultById ''res-1'']
   \<and> requests (snd (ADOF_handleSubmit accepting_api ''u1'' adof_answered_state empty_world)) =
       [SubmitAnswers \<lparr>user_id = ''u1'', mcq_id = ''doc-42'', answers = [(''1'', ''Agree'')]\<rparr>,
        GetResultById ''res-1'']"
  using identifier_resolution [where testData = example_test and d = "''doc-42''"
      and api = accepting_api and userId = "''u1''" and st = answered_state and w = empty_world
      and ast = adof_answered_state]
  by (simp add: eval_defs)

subsection \<open>Score translation\<close>

text \<open>Claim C2. The scores 1 to 5 translate to Strongly Disagree, Disagree, Neutral, Agree
  and Strongly Agree; every other score translates to Neutral; the translation of any
  score is one of the five labels.\<close>

theorem score_translation:
  "responseTextOf 1 = ''Strongly Disagree'' \<and> responseTextOf 2 = ''Disagree''
   \<and> responseTextOf 3 = ''Neutral'' \<and> responseTextOf 4 = ''Agree''
   \<and> responseTextOf 5 = ''Strongly Agree''
   \<and> (sc \<notin> {1, 2, 3, 4, 5} \<longrightarrow> responseTextOf sc = ''Neutral'')
   \<and> responseTextOf sc \<in> set likert_vocabulary"
  by (simp add: responseTextOf_def likert_vocabulary_def)

text \<open>The score 99 is none of 1 to 5 and translates to Neutral, as 3 does.\<close>

theorem score_translation_witness:
  "(99::int) \<notin> {1, 2, 3, 4, 5} \<and> responseTextOf 99 = ''Neutral'' \<and> responseTextOf 3 = ''Neutral''"
  using score_translation [of 99] by simp


subsection \<open>Test acquisition\<close>



subsection \<open>Answer capture\<close>

lemma map_of_obj_put: "map_of (obj_put k v xs) = (map_of xs)(k \<mapsto> v)"
  by (induction xs) (auto simp: fun_upd_twist)

lemma resolveResult_state:
  assumes "resolveResult api sr st w = (st', w')"
  shows "selectedAnswers st' = selectedAnswers st \<and> isSubmitted st'
         \<and> currentQuestionIndex st' = currentQuestionIndex st \<and> isSubmitting st' = isSubmitting st"
  using assms
  by (auto simp: resolveResult_def Let_def split: prod.splits sum.splits if_splits)

lemma submitBody_state:
  assumes "submitBody api testData userId st w = (Inr st', w')"
  shows "selectedAnswers st' = selectedAnswers st \<and> isSubmitted st'
         \<and> currentQuestionIndex st' = currentQuestionIndex st \<and> isSubmitting st' = isSubmitting st"
  using assms
  by (auto simp: submitBody_def Let_def split: prod.splits sum.splits if_splits
           dest: resolveResult_state)

lemma handleSubmit_state:
  "selectedAnswers (fst (handleSubmit api testData userId st w)) = selectedAnswers st
   \<and> (isSubmitted st \<longrightarrow> isSubmitted (fst (handleSubmit api testData userId st w)))
   \<and> currentQuestionIndex (fst (handleSubmit api testData userId st w)) = currentQuestionIndex st"
proof (cases "length (selectedAnswers st) = length (questions testData)")
  case False
  then show ?thesis by (simp add: handleSubmit_def)
next
  case True
  obtain r w' where b: "submitBody api testData userId (st\<lparr>isSubmitting := True, testResult := None\<rparr>) w = (r, w')"
    by (cases "submitBody api testData userId (st\<lparr>isSubmitting := True, testResult := None\<rparr>) w")
  show ?thesis
  proof (cases r)
    case (Inl e)
    with True b show ?thesis by (simp add: handleSubmit_def Let_def)
  next
    case (Inr st2)
    with b have "submitBody api testData userId (st\<lparr>isSubmitting := True, testResult := None\<rparr>) w = (Inr st2, w')"
      by simp
    from submitBody_state [OF this] True b Inr show ?thesis
      by (simp add: handleSubmit_def Let_def)
  qed
qed

lemma apply_event_submitted:
  assumes "isSubmitted (fst sw)"
  shows "selectedAnswers (fst (apply_event api testData userId ev sw)) = selectedAnswers (fst sw)
         \<and> isSubmitted (fst (apply_event api testData userId ev sw))"
proof (cases sw)
  case (Pair st w)
  with assms show ?thesis
    using handleSubmit_state [of api testData userId st w]
    by (cases ev) (simp_all add: handleAnswerSelect_def handleNext_def handlePrevious_def)
qed

lemma run_submitted:
  "isSubmitted (fst sw) \<Longrightarrow>
     selectedAnswers (fst (run api testData userId events sw)) = selectedAnswers (fst sw)
     \<and> isSubmitted (fst (run api testData userId events sw))"
  unfolding run_def
proof (induction events arbitrary: sw)
  case Nil
  then show ?case by simp
next
  case (Cons ev events)
  from apply_event_submitted [OF Cons.prems, of api testData userId ev]
  have 1: "selectedAnswers (fst (apply_event api testData userId ev sw)) = selectedAnswers (fst sw)"
    and 2: "isSubmitted (fst (apply_event api testData userId ev sw))" by simp_all
  from Cons.IH [OF 2] 1 show ?case by simp
qed

lemma run_navigation:
  "set events \<subseteq> {Next, Previous} \<Longrightarrow>
     selectedAnswers (fst (run api testData userId events sw)) = selectedAnswers (fst sw)"
  unfolding run_def
proof (induction events arbitrary: sw)
  case Nil
  then show ?case by simp
next
  case (Cons ev events)
  then have ev: "ev = Next \<or> ev = Previous" and rest: "set events \<subseteq> {Next, Previous}" by auto
  have "selectedAnswers (fst (apply_event api testData userId ev sw)) = selectedAnswers (fst sw)"
    using ev by (cases sw) (auto simp: handleNext_def handlePrevious_def)
  with Cons.IH [OF rest] show ?case by simp
qed

text \<open>Claim C9. Selecting a score for question \<open>i\<close> leaves the entry of every other
  question as it was (and, before submission, sets the entry of \<open>i\<close>); \<open>handleNext\<close> and
  \<open>handlePrevious\<close> change no entry, and neither does any sequence of navigation events,
  so a question that is shown again shows the score selected before.\<close>

theorem answer_capture_frame:
  "(j \<noteq> i \<longrightarrow> selectedAnswer (handleAnswerSelect i sc st) j = selectedAnswer st j)
   \<and> (\<not> isSubmitted st \<longrightarrow> selectedAnswer (handleAnswerSelect i sc st) i = Some sc)
   \<and> selectedAnswers (handleNext testData st) = selectedAnswers st
   \<and> selectedAnswers (handlePrevious st) = selectedAnswers st
   \<and> (set events \<subseteq> {Next, Previous}
        \<longrightarrow> selectedAnswers (fst (run api testData userId events (st, w))) = selectedAnswers st)"
proof -
  have a: "j \<noteq> i \<longrightarrow> selectedAnswer (handleAnswerSelect i sc st) j = selectedAnswer st j"
    by (simp add: selectedAnswer_def handleAnswerSelect_def map_of_obj_put)
  have b: "\<not> isSubmitted st \<longrightarrow> selectedAnswer (handleAnswerSelect i sc st) i = Some sc"
    by (simp add: selectedAnswer_def handleAnswerSelect_def map_of_obj_put)
  have c: "selectedAnswers (handleNext testData st) = selectedAnswers st"
    by (simp add: handleNext_def)
  have d: "selectedAnswers (handlePrevious st) = selectedAnswers st"
    by (simp add: handlePrevious_def)
  have e: "set events \<subseteq> {Next, Previous}
        \<longrightarrow> selectedAnswers (fst (run api testData userId events (st, w))) = selectedAnswers st"
    using run_navigation [of events api testData userId "(st, w)"] by simp
  from a b c d e show ?thesis by blast
qed

text \<open>After question 0 was answered with 4, answering question 1 with 5 keeps the 4, and
  going to the next question and back keeps the answers.\<close>

theorem answer_capture_frame_witness:
  "(0::nat) \<noteq> 1 \<and> \<not> isSubmitted answered_state
   \<and> selectedAnswer (handleAnswerSelect 1 5 answered_state) 0 = Some 4
   \<and> selectedAnswer (handleAnswerSelect 1 5 answered_state) 1 = Some 5
   \<and> set [Next, Previous] \<subseteq> {Next, Previous}
   \<and> selectedAnswers (fst (run accepting_api two_question_test ''u1'' [Next, Previous]
                              (answered_state, empty_world))) = [(0, 4)]"
  using answer_capture_frame [where i = 1 and j = 0 and sc = 5 and st = answered_state
      and events = "[Next, Previous]" and api = accepting_api and testData = two_question_test
      and userId = "''u1''" and w = empty_world]
  by (simp add: selectedAnswer_def answered_state_def handleAnswerSelect_def initial_state_def)

text \<open>Claim C10. Once \<open>isSubmitted\<close> is set, \<open>handleAnswerSelect\<close> returns the state
  unchanged for every question index and score, and no sequence of events changes
  \<open>selectedAnswers\<close> or clears the flag.\<close>

theorem submitted_answers_frozen:
  "isSubmitted st \<longrightarrow>
     handleAnswerSelect i sc st = st
     \<and> selectedAnswers (fst (run api testData userId events (st, w))) = selectedAnswers st
     \<and> isSubmitted (fst (run api testData userId events (st, w)))"
  using run_submitted [of "(st, w)" api testData userId events]
  by (simp add: handleAnswerSelect_def)

text \<open>After the example test was submitted, further clicks leave the one answer.\<close>

theorem submitted_answers_frozen_witness:
  "isSubmitted (fst (handleSubmit accepting_api example_test ''u1'' answered_state empty_world))
   \<and> selectedAnswers (fst (run accepting_api example_test ''u1'' [Select 2, Previous, Submit, Select 1]
        (handleSubmit accepting_api example_test ''u1'' answered_state empty_world))) = [(0, 4)]"
  using submitted_answers_frozen [where st = "fst (handleSubmit accepting_api example_test ''u1'' answered_state empty_world)"
      and w = "snd (handleSubmit accepting_api example_test ''u1'' answered_state empty_world)"
      and api = accepting_api and testData = example_test and userId = "''u1''"
      and events = "[Select 2, Previous, Submit, Select 1]" and i = 0 and sc = 2]
  by (simp add: eval_defs)

subsection \<open>The completeness check\<close>

text \<open>Claim C5. For a test with \<open>N\<close> questions, \<open>handleSubmit\<close> of either component
  rejects a \<open>selectedAnswers\<close> whose size is not \<open>N\<close> (fewer entries in particular): the
  state stays, no request is sent, and the only effect is the destructive notification
  Incomplete Test. A submission that sends a request had \<open>N\<close> entries.\<close>

theorem incomplete_submission_rejected:
  "(length (selectedAnswers st) \<noteq> length (questions testData)
      \<longrightarrow> handleSubmit api testData userId st w =
            (st, w\<lparr>toasts := toasts w @ [\<lparr>title = ''Incomplete Test'',
                     description = Text ''Please answer all questions before submitting.'',
                     variant = Some ''destructive''\<rparr>]\<rparr>))
   \<and> (requests (snd (handleSubmit api testData userId st w)) \<noteq> requests w
      \<longrightarrow> length (selectedAnswers st) = length (questions testData))
   \<and> (adof_testData ast = Some testData
      \<longrightarrow> (length (adof_selectedAnswers ast) \<noteq> length (questions testData)
            \<longrightarrow> ADOF_handleSubmit api userId ast w =
                  (ast, w\<lparr>toasts := toasts w @ [\<lparr>title = ''Incomplete Test'',
                     description = Text ''Please answer all questions before submitting.'',
                     variant = Some ''destructive''\<rparr>]\<rparr>))
          \<and> (requests (snd (ADOF_handleSubmit api userId ast w)) \<noteq> requests w
            \<longrightarrow> length (adof_selectedAnswers ast) = length (questions testData)))"
proof -
  have a: "length (selectedAnswers st) \<noteq> length (questions testData)
      \<longrightarrow> handleSubmit api testData userId st w =
            (st, w\<lparr>toasts := toasts w @ [\<lparr>title = ''Incomplete Test'',
                     description = Text ''Please answer all questions before submitting.'',
                     variant = Some ''destructive''\<rparr>]\<rparr>)"
    by (simp add: handleSubmit_def show_toast_def)
  have b: "requests (snd (handleSubmit api testData userId st w)) \<noteq> requests w
      \<longrightarrow> length (selectedAnswers st) = length (questions testData)"
    using handleSubmit_requests [of api testData userId st w] by auto
  have c: "adof_testData ast = Some testData
      \<longrightarrow> (length (adof_selectedAnswers ast) \<noteq> length (questions testData)
            \<longrightarrow> ADOF_handleSubmit api userId ast w =
                  (ast, w\<lparr>toasts := toasts w @ [\<lparr>title = ''Incomplete Test'',
                     description = Text ''Please answer all questions before submitting.'',
                     variant = Some ''destructive''\<rparr>]\<rparr>))"
    by (simp add: ADOF_handleSubmit_def show_toast_def)
  have d: "adof_testData ast = Some testData
      \<longrightarrow> (requests (snd (ADOF_handleSubmit api userId ast w)) \<noteq> requests w
            \<longrightarrow> length (adof_selectedAnswers ast) = length (questions testData))"
    using ADOF_handleSubmit_requests [of ast testData api userId w] by auto
  from a b c d show ?thesis by blast
qed

text \<open>The one-question test with no answer is rejected; with its answer it is sent.\<close>

theorem incomplete_submission_rejected_witness:
  "length (selectedAnswers initial_state) < length (questions example_test)
   \<and> handleSubmit accepting_api example_test ''u1'' initial_state empty_world =
       (initial_state, empty_world\<lparr>toasts := [\<lparr>title = ''Incomplete Test'',
          description = Text ''Please answer all questions before submitting.'',
          variant = Some ''destructive''\<rparr>]\<rparr>)
   \<and> requests (snd (handleSubmit accepting_api example_test ''u1'' answered_state empty_world)) \<noteq> []
   \<and> length (selectedAnswers answered_state) = length (questions example_test)
   \<and> adof_testData (adof_answered_state\<lparr>adof_selectedAnswers := []\<rparr>) = Some example_test
   \<and> requests (snd (ADOF_handleSubmit accepting_api ''u1''
         (adof_answered_state\<lparr>adof_selectedAnswers := []\<rparr>) empty_world)) = []
   \<and> requests (snd (ADOF_handleSubmit accepting_api ''u1'' adof_answered_state empty_world)) \<noteq> []"
  using incomplete_submission_rejected [where st = initial_state and testData = example_test
      and api = accepting_api and userId = "''u1''" and w = empty_world
      and ast = "adof_answered_state\<lparr>adof_selectedAnswers := []\<rparr>"]
    incomplete_submission_rejected [where st = answered_state and testData = example_test
      and api = accepting_api and userId = "''u1''" and w = empty_world
      and ast = adof_answered_state]
  by (simp add: eval_defs)

subsection \<open>A test without an identifier\<close>

lemma getDocumentId_empty:
  "\<not> truthy (mcqs_id testData) \<Longrightarrow> \<not> truthy (document_id testData) \<Longrightarrow>
   \<not> truthy (documentId testData) \<Longrightarrow> \<not> truthy (id' testData) \<Longrightarrow>
   \<not> truthy (underscore_id testData) \<Longrightarrow> getDocumentId testData = []"
  by (simp add: getDocumentId_def js_or_def)

lemma submitBody_without_id:
  assumes "getDocumentId testData = []"
  shows "\<exists>m. submitBody api testData userId st w = (Inl (Error m), w)
             \<and> (trim userId \<noteq> [] \<longrightarrow> m = ''Test document ID is required. Please generate a new test.'')
             \<and> (trim userId = [] \<longrightarrow> m = ''User ID is required. Please log in again.'')"
proof -
  have "trim [] = []" by (simp add: trim_def)
  then show ?thesis using assms by (auto simp add: submitBody_def Let_def)
qed

text \<open>Claim C7, as amended. When none of the identifier fields is non-empty,
  \<open>TestDisplay.handleSubmit\<close> changes nothing but the notifications (no request is sent),
  shows exactly one destructive notification, and the component is back in the state
  before the click (the state itself when no submission was in flight and no result was
  stored). The notification is the one that asks for a new test when every question has
  been answered and the user identifier is not blank; the completeness check and the
  check of the user identifier come first: the notification is Incomplete Test when the
  number of answers differs from the number of questions, and asks to log in again when
  the answers are complete and the user identifier is blank.\<close>

theorem missing_identifier_feedback:
  "\<not> truthy (mcqs_id testData) \<and> \<not> truthy (document_id testData) \<and> \<not> truthy (documentId testData)
   \<and> \<not> truthy (id' testData) \<and> \<not> truthy (underscore_id testData)
   \<longrightarrow> (\<exists>t. snd (handleSubmit api testData userId st w) = w\<lparr>toasts := toasts w @ [t]\<rparr>
            \<and> variant t = Some ''destructive''
            \<and> (length (selectedAnswers st) = length (questions testData) \<and> trim userId \<noteq> []
                \<longrightarrow> t = \<lparr>title = ''Submission Failed'',
                          description = Text ''Test document ID is required. Please generate a new test.'',
                          variant = Some ''destructive''\<rparr>)
            \<and> (length (selectedAnswers st) \<noteq> length (questions testData)
                \<longrightarrow> t = \<lparr>title = ''Incomplete Test'',
                          description = Text ''Please answer all questions before submitting.'',
                          variant = Some ''destructive''\<rparr>)
            \<and> (length (selectedAnswers st) = length (questions testData) \<and> trim userId = []
                \<longrightarrow> t = \<lparr>title = ''Submission Failed'',
                          description = Text ''User ID is required. Please log in again.'',
                          variant = Some ''destructive''\<rparr>))
       \<and> (fst (handleSubmit api testData userId st w) = st
           \<or> fst (handleSubmit api testData userId st w) = st\<lparr>isSubmitting := False, testResult := None\<rparr>)
       \<and> (\<not> isSubmitting st \<and> testResult st = None \<longrightarrow> fst (handleSubmit api testData userId st w) = st)"
proof (intro impI, elim conjE)
  assume "\<not> truthy (mcqs_id testData)" "\<not> truthy (document_id testData)"
    "\<not> truthy (documentId testData)" "\<not> truthy (id' testData)" "\<not> truthy (underscore_id testData)"
  then have e: "getDocumentId testData = []" by (rule getDocumentId_empty)
  let ?goal = "(\<exists>t. snd (handleSubmit api testData userId st w) = w\<lparr>toasts := toasts w @ [t]\<rparr>
            \<and> variant t = Some ''destructive''
            \<and> (length (selectedAnswers st) = length (questions testData) \<and> trim userId \<noteq> []
                \<longrightarrow> t = \<lparr>title = ''Submission Failed'',
                          description = Text ''Test document ID is required. Please generate a new test.'',
                          variant = Some ''destructive''\<rparr>)
            \<and> (length (selectedAnswers st) \<noteq> length (questions testData)
                \<longrightarrow> t = \<lparr>title = ''Incomplete Test'',
                          description = Text ''Please answer all questions before submitting.'',
                          variant = Some ''destructive''\<rparr>)
            \<and> (length (selectedAnswers st) = length (questions testData) \<and> trim userId = []
                \<longrightarrow> t = \<lparr>title = ''Submission Failed'',
                          description = Text ''User ID is required. Please log in again.'',
                          variant = Some ''destructive''\<rparr>))
       \<and> (fst (handleSubmit api testData userId st w) = st
           \<or> fst (handleSubmit api testData userId st w) = st\<lparr>isSubmitting := False, testResult := None\<rparr>)
       \<and> (\<not> isSubmitting st \<and> testResult st = None \<longrightarrow> fst (handleSubmit api testData userId st w) = st)"
  show ?goal
  proof (cases "length (selectedAnswers st) = length (questions testData)")
    case False
    then have h: "handleSubmit api testData userId st w =
               (st, w\<lparr>toasts := toasts w @ [\<lparr>title = ''Incomplete Test'',
                     description = Text ''Please answer all questions before submitting.'',
                     variant = Some ''destructive''\<rparr>]\<rparr>)"
      by (simp add: handleSubmit_def show_toast_def)
    have "\<exists>t. snd (handleSubmit api testData userId st w) = w\<lparr>toasts := toasts w @ [t]\<rparr>
            \<and> variant t = Some ''destructive''
            \<and> (length (selectedAnswers st) = length (questions testData) \<and> trim userId \<noteq> []
                \<longrightarrow> t = \<lparr>title = ''Submission Failed'',
                          description = Text ''Test document ID is required. Please generate a new test.'',
                          variant = Some ''destructive''\<rparr>)
            \<and> (length (selectedAnswers st) \<noteq> length (questions testData)
                \<longrightarrow> t = \<lparr>title = ''Incomplete Test'',
                          description = Text ''Please answer all questions before submitting.'',
                          variant = Some ''destructive''\<rparr>)
            \<and> (length (selectedAnswers st) = length (questions testData) \<and> trim userId = []
                \<longrightarrow> t = \<lparr>title = ''Submission Failed'',
                          description = Text ''User ID is required. Please log in again.'',
                          variant = Some ''destructive''\<rparr>)"
      unfolding h using False
      by (intro exI [where x = "\<lparr>title = ''Incomplete Test'',
                     description = Text ''Please answer all questions before submitting.'',
                     variant = Some ''destructive''\<rparr>"]) simp
    then show ?thesis unfolding h by simp
  next
    case True
    from submitBody_without_id [OF e, of api userId "st\<lparr>isSubmitting := True, testResult := None\<rparr>" w]
    obtain m where m: "submitBody api testData userId (st\<lparr>isSubmitting := True, testResult := None\<rparr>) w
                         = (Inl (Error m), w)"
      and m': "trim userId \<noteq> [] \<longrightarrow> m = ''Test document ID is required. Please generate a new test.''"
      and m'': "trim userId = [] \<longrightarrow> m = ''User ID is required. Please log in again.''"
      by blast
    have h: "handleSubmit api testData userId st w =
               (st\<lparr>isSubmitting := False, testResult := None\<rparr>,
                w\<lparr>toasts := toasts w @ [\<lparr>title = ''Submission Failed'', description = Text m,
                                           variant = Some ''destructive''\<rparr>]\<rparr>)"
      using True m by (simp add: handleSubmit_def show_toast_def)
    have "\<exists>t. snd (handleSubmit api testData userId st w) = w\<lparr>toasts := toasts w @ [t]\<rparr>
            \<and> variant t = Some ''destructive''
            \<and> (length (selectedAnswers st) = length (questions testData) \<and> trim userId \<noteq> []
                \<longrightarrow> t = \<lparr>title = ''Submission Failed'',
                          description = Text ''Test document ID is required. Please generate a new test.'',
                          variant = Some ''destructive''\<rparr>)
            \<and> (length (selectedAnswers st) \<noteq> length (questions testData)
                \<longrightarrow> t = \<lparr>title = ''Incomplete Test'',
                          description = Text ''Please answer all questions before submitting.'',
                          variant = Some ''destructive''\<rparr>)
            \<and> (length (selectedAnswers st) = length (questions testData) \<and> trim userId = []
                \<longrightarrow> t = \<lparr>title = ''Submission Failed'',
                          description = Text ''User ID is required. Please log in again.'',
                          variant = Some ''destructive''\<rparr>)"
      unfolding h using m' m'' True
      by (intro exI [where x = "\<lparr>title = ''Submission Failed'', description = Text m,
                                           variant = Some ''destructive''\<rparr>"]) simp
    then show ?thesis unfolding h by auto
  qed
qed

text \<open>The answered test without an identifier, for the user \<open>u1\<close>; the same test
  before it is answered; the answered test for a blank user identifier.\<close>

theorem missing_identifier_feedback_witness:
  "\<not> truthy (mcqs_id test_without_id) \<and> \<not> truthy (document_id test_without_id)
   \<and> \<not> truthy (documentId test_without_id) \<and> \<not> truthy (id' test_without_id)
   \<and> \<not> truthy (underscore_id test_without_id)
   \<and> length (selectedAnswers answered_state) = length (questions test_without_id)
   \<and> trim ''u1'' \<noteq> [] \<and> \<not> isSubmitting answered_state \<and> testResult answered_state = None
   \<and> handleSubmit accepting_api test_without_id ''u1'' answered_state empty_world =
       (answered_state,
        empty_world\<lparr>toasts := [\<lparr>title = ''Submission Failed'',
           description = Text ''Test document ID is required. Please generate a new test.'',
           variant = Some ''destructive''\<rparr>]\<rparr>)
   \<and> length (selectedAnswers initial_state) \<noteq> length (questions test_without_id)
   \<and> handleSubmit accepting_api test_without_id ''u1'' initial_state empty_world =
       (initial_state,
        empty_world\<lparr>toasts := [\<lparr>title = ''Incomplete Test'',
           description = Text ''Please answer all questions before submitting.'',
           variant = Some ''destructive''\<rparr>]\<rparr>)
   \<and> trim ''  '' = []
   \<and> handleSubmit accepting_api test_without_id ''  '' answered_state empty_world =
       (answered_state,
        empty_world\<lparr>toasts := [\<lparr>title = ''Submission Failed'',
           description = Text ''User ID is required. Please log in again.'',
           variant = Some ''destructive''\<rparr>]\<rparr>)"
  using missing_identifier_feedback [where testData = test_without_id and api = accepting_api
      and userId = "''u1''" and st = answered_state and w = empty_world]
    missing_identifier_feedback [where testData = test_without_id and api = accepting_api
      and userId = "''u1''" and st = initial_state and w = empty_world]
    missing_identifier_feedback [where testData = test_without_id and api = accepting_api
      and userId = "''  ''" and st = answered_state and w = empty_world]
  by (simp add: eval_defs)

text \<open>Claim C7 as stated fails where an earlier check rejects the submission: with no
  identifier and no answer the notification asks to answer all questions, and with no
  identifier and an empty user identifier it asks to log in again.\<close>

theorem missing_identifier_counterexample:
  "\<not> truthy (mcqs_id test_without_id) \<and> \<not> truthy (document_id test_without_id)
   \<and> \<not> truthy (documentId test_without_id) \<and> \<not> truthy (id' test_without_id)
   \<and> \<not> truthy (underscore_id test_without_id)
   \<and> toasts (snd (handleSubmit accepting_api test_without_id ''u1'' initial_state empty_world)) =
       [\<lparr>title = ''Incomplete Test'',
         description = Text ''Please answer all questions before submitting.'',
         variant = Some ''destructive''\<rparr>]
   \<and> toasts (snd (handleSubmit accepting_api test_without_id [] answered_state empty_world)) =
       [\<lparr>title = ''Submission Failed'',
         description = Text ''User ID is required. Please log in again.'',
         variant = Some ''destructive''\<rparr>]"
  by (simp add: eval_defs)

subsection \<open>Result resolution\<close>

text \<open>What \<open>TestDisplay.handleSubmit\<close> does with a submission response: the result
  identifier is looked up at the top level and under \<open>data\<close>; without one the
  submission response is stored; with one the result is fetched by it, and the
  submission response is stored when the fetch fails (or brings no \<open>data\<close>).\<close>

lemma TestDisplay_result_resolution:
  assumes "resolveResult api submitResponse st w = (st', w')"
    and "resultId = js_or (top_result_id submitResponse)
                      (case data submitResponse of None \<Rightarrow> None | Some d \<Rightarrow> result_id d)"
  shows "isSubmitted st'
         \<and> (\<not> truthy resultId \<longrightarrow> requests w' = requests w \<and> testResult st' = Some submitResponse)
         \<and> (truthy resultId \<longrightarrow>
              (\<exists>r. resultId = Some r \<and> requests w' = requests w @ [GetResultById r]
                 \<and> testResult st' =
                     Some (case fst (getResultById api r (server_state w)) of
                             Inl error \<Rightarrow> submitResponse
                           | Inr detailedResult \<Rightarrow>
                               if data detailedResult \<noteq> None then detailedResult else submitResponse)))"
proof (cases "truthy resultId")
  case False
  then show ?thesis using assms
    by (auto simp: resolveResult_def Let_def)
next
  case True
  then obtain r where r: "resultId = Some r" by (cases resultId) (simp_all add: truthy_def)
  have eq: "js_or (top_result_id submitResponse)
              (case data submitResponse of None \<Rightarrow> None | Some d \<Rightarrow> result_id d) = Some r"
    using assms(2) r by simp
  have tr: "truthy (Some r)" using True r by simp
  obtain res s where g: "getResultById api r (server_state w) = (res, s)"
    by (cases "getResultById api r (server_state w)")
  have c: "call_getResultById api r w =
             (res, w\<lparr>server_state := s, requests := requests w @ [GetResultById r]\<rparr>)"
    using g by (simp add: call_getResultById_def)
  have "isSubmitted st' \<and> requests w' = requests w @ [GetResultById r]
        \<and> testResult st' =
             Some (case res of
                     Inl error \<Rightarrow> submitResponse
                   | Inr detailedResult \<Rightarrow>
                       if data detailedResult \<noteq> None then detailedResult else submitResponse)"
    using assms(1) by (cases res) (auto simp: resolveResult_def Let_def eq tr c)
  then show ?thesis using True r g by simp
qed

text \<open>Claim C4 at its failing input. \<open>ADOFTestDisplay.handleSubmit\<close>, for the answered
  example test and a server that accepts the submission (the result identifier is
  \<open>data.result_id\<close>) and fails to return the result: the submission and the fetch are
  sent, the notification is Submission Failed, and \<open>onTestComplete\<close> is never called; the
  submission response is not shown.\<close>

theorem ADOF_result_fetch_failure:
  "ADOF_handleSubmit no_detail_api ''u1'' adof_answered_state empty_world =
     (adof_answered_state,
      \<lparr>server_state = 1,
       requests = [SubmitAnswers \<lparr>user_id = ''u1'', mcq_id = ''doc-42'', answers = [(''1'', ''Agree'')]\<rparr>,
                   GetResultById ''res-1''],
       toasts = [\<lparr>title = ''Submission Failed'', description = Text ''Failed to fetch result'',
                  variant = Some ''destructive''\<rparr>],
       completed = []\<rparr>)"
  by (simp add: eval_defs)

subsection \<open>The answers that are sent\<close>

text \<open>The decimal digits of a number read back as the number, so \<open>toString\<close> is
  injective and the keys of \<open>answersForAPI\<close> are the question numbers.\<close>

lemma responseTextOf_vocabulary: "responseTextOf sc \<in> set likert_vocabulary"
  by (simp add: responseTextOf_def likert_vocabulary_def)

lemma below_ten: "d < 10 \<Longrightarrow> d \<in> {0, 1, 2, 3, 4, 5, 6, 7, 8, 9 :: nat}"
  by auto

lemma is_digit_digit: "d < 10 \<Longrightarrow> is_digit (digit d)"
  using below_ten [of d] by (auto simp add: is_digit_def digit_def)

lemma digit_value_digit: "d < 10 \<Longrightarrow> digit_value (digit d) = d"
  using below_ten [of d] by (auto simp add: digit_value_def digit_def)

lemma toString_digits: "list_all is_digit (toString n)"
proof (induction n rule: toString.induct)
  case (1 n)
  show ?case
  proof (cases "n < 10")
    case True
    then show ?thesis by (subst toString.simps) (simp add: is_digit_digit)
  next
    case False
    with 1 have "list_all is_digit (toString (n div 10))" by simp
    moreover have "is_digit (digit (n mod 10))" by (simp add: is_digit_digit)
    ultimately show ?thesis using False by (subst toString.simps) simp
  qed
qed

lemma toString_value: "foldl (\<lambda>a c. 10 * a + digit_value c) 0 (toString n) = n"
proof (induction n rule: toString.induct)
  case (1 n)
  show ?case
  proof (cases "n < 10")
    case True
    then show ?thesis by (subst toString.simps) (simp add: digit_value_digit)
  next
    case False
    with 1 have "foldl (\<lambda>a c. 10 * a + digit_value c) 0 (toString (n div 10)) = n div 10" by simp
    moreover have "digit_value (digit (n mod 10)) = n mod 10" by (simp add: digit_value_digit)
    ultimately show ?thesis using False by (subst toString.simps) simp
  qed
qed

lemma toString_not_empty: "toString n \<noteq> []"
  by (subst toString.simps) simp

lemma parseInt_toString: "parseInt (toString n) = Some n"
proof -
  have t: "takeWhile is_digit (toString n) = toString n"
    using toString_digits [of n] by (simp add: list_all_iff takeWhile_eq_all_conv)
  show ?thesis
    unfolding parseInt_def Let_def t by (simp add: toString_not_empty toString_value)
qed

lemma toString_inj: "toString m = toString n \<Longrightarrow> m = n"
  by (metis option.inject parseInt_toString)

lemma questionKey_toString: "questionKey (toString k) = toString (k + 1)"
  by (simp add: questionKey_def parseInt_toString)

lemma update_fresh: "k \<notin> fst ` set al \<Longrightarrow> AList.update k v al = al @ [(k, v)]"
  by (induction al) auto

lemma fold_update_fresh:
  "distinct (map (\<lambda>x. f (fst x)) xs) \<Longrightarrow> (\<forall>x \<in> set xs. f (fst x) \<notin> fst ` set acc) \<Longrightarrow>
     fold (\<lambda>(k, sc) a. AList.update (f k) (g sc) a) xs acc = acc @ map (\<lambda>(k, sc). (f k, g sc)) xs"
proof (induction xs arbitrary: acc)
  case Nil
  then show ?case by simp
next
  case (Cons x xs)
  obtain k sc where x: "x = (k, sc)" by (cases x)
  from Cons.prems have fresh: "f k \<notin> fst ` set acc" by (simp add: x)
  have d: "distinct (map (\<lambda>x. f (fst x)) xs)" using Cons.prems by simp
  have "\<forall>y \<in> set xs. f (fst y) \<notin> fst ` set (acc @ [(f k, g sc)])"
    using Cons.prems by (auto simp: x image_iff)
  from Cons.IH [OF d this] show ?case
    by (simp add: x update_fresh [OF fresh])
qed

lemma answersForAPI_distinct:
  assumes "distinct (map fst selected)"
  shows "answersForAPI selected = map (\<lambda>(k, sc). (toString (k + 1), responseTextOf sc)) selected"
proof -
  have inj: "inj (\<lambda>k. toString (k + 1))"
    by (rule injI) (auto dest: toString_inj)
  have "distinct (map (\<lambda>x. questionKey (fst x)) (Object_entries selected))"
    using assms inj
    by (simp add: Object_entries_def comp_def case_prod_unfold questionKey_toString distinct_map
          inj_on_def)
  from fold_update_fresh [where f = questionKey and g = responseTextOf and acc = "[]", OF this]
  show ?thesis
    by (simp add: answersForAPI_def Object_entries_def comp_def case_prod_unfold questionKey_toString
         )
qed

lemma obj_put_keys: "set (map fst (obj_put k v xs)) = insert k (set (map fst xs))"
proof -
  have "set (map fst (obj_put k v xs)) = dom (map_of (obj_put k v xs))"
    by (simp add: dom_map_of_conv_image_fst)
  also have "\<dots> = insert k (dom (map_of xs))" by (simp add: map_of_obj_put)
  also have "\<dots> = insert k (set (map fst xs))" by (simp add: dom_map_of_conv_image_fst)
  finally show ?thesis .
qed

lemma obj_put_sorted:
  "sorted_wrt (<) (map fst xs) \<Longrightarrow> sorted_wrt (<) (map fst (obj_put k v xs))"
proof (induction xs)
  case Nil
  then show ?case by simp
next
  case (Cons x xs)
  obtain k' v' where x: "x = (k', v')" by (cases x)
  show ?case
  proof (cases "k < k'")
    case True
    with Cons.prems show ?thesis by (auto simp: x)
  next
    case False
    show ?thesis
    proof (cases "k = k'")
      case True
      with Cons.prems show ?thesis by (auto simp: x)
    next
      case ne: False
      with False have lt: "k' < k" by simp
      from Cons.prems have "sorted_wrt (<) (map fst xs)" and all: "\<forall>y \<in> set xs. k' < fst y"
        by (auto simp: x)
      from Cons.IH [OF this(1)] have s: "sorted_wrt (<) (map fst (obj_put k v xs))" .
      have "\<forall>y \<in> set (map fst (obj_put k v xs)). k' < y"
        unfolding obj_put_keys using all lt by auto
      with s False ne show ?thesis by (simp add: x)
    qed
  qed
qed

lemma apply_event_invariant:
  assumes "answers_invariant testData (fst sw)"
  shows "answers_invariant testData (fst (apply_event api testData userId ev sw))"
proof (cases sw)
  case (Pair st w)
  with assms have inv: "answers_invariant testData st" by simp
  show ?thesis
  proof (cases ev)
    case (Select optionScore)
    show ?thesis
    proof (cases "isSubmitted st")
      case True
      with inv Pair Select show ?thesis by (simp add: handleAnswerSelect_def)
    next
      case False
      let ?st' = "st\<lparr>selectedAnswers :=
                     obj_put (currentQuestionIndex st) optionScore (selectedAnswers st)\<rparr>"
      have e: "fst (apply_event api testData userId ev sw) = ?st'"
        using Pair Select False by (simp add: handleAnswerSelect_def)
      have s: "sorted_wrt (<) (map fst (selectedAnswers ?st'))"
        using inv by (simp add: answers_invariant_def obj_put_sorted)
      have b: "length (questions testData) = 0
               \<or> (currentQuestionIndex ?st' < length (questions testData)
                   \<and> list_all (\<lambda>k. k < length (questions testData)) (map fst (selectedAnswers ?st')))"
        using inv unfolding answers_invariant_def list_all_iff
        by (auto simp: obj_put_keys simp del: set_map)
      from s b show ?thesis unfolding e answers_invariant_def by (rule conjI)
    qed
  next
    case Next
    with inv Pair show ?thesis by (auto simp: answers_invariant_def handleNext_def)
  next
    case Previous
    with inv Pair show ?thesis by (auto simp: answers_invariant_def handlePrevious_def)
  next
    case Submit
    with inv Pair show ?thesis
      using handleSubmit_state [of api testData userId st w] by (simp add: answers_invariant_def)
  qed
qed

lemma run_invariant:
  "answers_invariant testData (fst sw) \<Longrightarrow>
     answers_invariant testData (fst (run api testData userId events sw))"
  unfolding run_def
proof (induction events arbitrary: sw)
  case Nil
  then show ?case by simp
next
  case (Cons ev events)
  from apply_event_invariant [OF Cons.prems, of api userId ev]
  have "answers_invariant testData (fst (apply_event api testData userId ev sw))" .
  from Cons.IH [OF this] show ?case by simp
qed

lemma all_indices:
  assumes "sorted_wrt (<) ks" and "list_all (\<lambda>k. k < n) ks" and "length ks = n"
  shows "ks = [0..<n]"
proof -
  have d: "distinct ks" using assms(1) by (simp add: strict_sorted_iff)
  have s: "sorted ks" using assms(1) by (simp add: strict_sorted_iff)
  have "set ks \<subseteq> {0..<n}" using assms(2) by (auto simp: list_all_iff)
  moreover have "card (set ks) = card {0..<n}" using d assms(3) by (simp add: distinct_card)
  ultimately have "set ks = {0..<n}" by (simp add: card_subset_eq)
  then have "set ks = set [0..<n]" by simp
  with s d show ?thesis
    by (intro sorted_distinct_set_unique) simp_all
qed

lemma answersForAPI_shape:
  assumes d: "distinct (map fst selected)"
  shows "map fst (answersForAPI selected) = map (\<lambda>k. toString (k + 1)) (map fst selected)
         \<and> distinct (map fst (answersForAPI selected))
         \<and> list_all (\<lambda>v. v \<in> set likert_vocabulary) (map snd (answersForAPI selected))"
proof -
  have a: "answersForAPI selected =
             map (\<lambda>(k, sc). (toString (k + 1), responseTextOf sc)) selected"
    by (rule answersForAPI_distinct [OF d])
  have k: "map fst (answersForAPI selected) = map (\<lambda>k. toString (k + 1)) (map fst selected)"
    unfolding a by (simp add: comp_def case_prod_unfold)
  have "inj (\<lambda>k. toString (k + 1))"
    by (rule injI) (auto dest: toString_inj)
  then have dk: "distinct (map fst (answersForAPI selected))"
    unfolding k using d by (simp add: distinct_map inj_on_def)
  have v: "list_all (\<lambda>v. v \<in> set likert_vocabulary) (map snd (answersForAPI selected))"
    unfolding a list_all_iff by (auto simp: responseTextOf_vocabulary)
  from k dk v show ?thesis by blast
qed

lemma complete_answers_shape:
  assumes "st = fst (run api testData userId events (initial_state, w))"
    and "length (selectedAnswers st) = length (questions testData)"
  shows "map fst (answersForAPI (selectedAnswers st)) = map toString [1..<length (questions testData) + 1]
         \<and> distinct (map fst (answersForAPI (selectedAnswers st)))
         \<and> list_all (\<lambda>v. v \<in> set likert_vocabulary) (map snd (answersForAPI (selectedAnswers st)))"
proof -
  let ?n = "length (questions testData)"
  have "answers_invariant testData (fst (initial_state, w))"
    by (simp add: answers_invariant_def initial_state_def)
  from run_invariant [OF this, of api userId events] assms(1)
  have inv: "answers_invariant testData st" by simp
  have keys: "map fst (selectedAnswers st) = [0..<?n]"
  proof (cases "?n = 0")
    case True
    with assms(2) show ?thesis by simp
  next
    case False
    with inv have "sorted_wrt (<) (map fst (selectedAnswers st))"
      and "list_all (\<lambda>k. k < ?n) (map fst (selectedAnswers st))"
      by (simp_all add: answers_invariant_def)
    from all_indices [OF this] assms(2) show ?thesis by simp
  qed
  then have d: "distinct (map fst (selectedAnswers st))" by simp
  have "map (\<lambda>k. toString (k + 1)) [0..<?n] = map toString (map Suc [0..<?n])"
    by (simp add: comp_def)
  also have "map Suc [0..<?n] = [1..<?n + 1]" by (simp add: map_Suc_upt)
  finally have m: "map (\<lambda>k. toString (k + 1)) (map fst (selectedAnswers st)) = map toString [1..<?n + 1]"
    by (simp only: keys)
  from answersForAPI_shape [OF d]
  have 1: "map fst (answersForAPI (selectedAnswers st)) =
             map (\<lambda>k. toString (k + 1)) (map fst (selectedAnswers st))"
    and 2: "distinct (map fst (answersForAPI (selectedAnswers st)))"
    and 3: "list_all (\<lambda>v. v \<in> set likert_vocabulary) (map snd (answersForAPI (selectedAnswers st)))"
    by blast+
  from 1 m have "map fst (answersForAPI (selectedAnswers st)) = map toString [1..<?n + 1]"
    by (rule trans)
  with 2 3 show ?thesis by blast
qed

text \<open>The first submission request of \<open>TestDisplay.handleSubmit\<close> carries the answers
  built from the selection. With \<open>complete_answers_shape\<close>: after any sequence of
  events that leaves as many answers as questions, its keys are the decimal numbers from 1 to the number of
  questions, each once, and its values are Likert labels.\<close>

lemma first_submission_request:
  "requests (snd (handleSubmit api testData userId st w)) = requests w
   \<or> (\<exists>rest. requests (snd (handleSubmit api testData userId st w)) =
         requests w @ GetMcqs userId
           # SubmitAnswers \<lparr>user_id = userId, mcq_id = getDocumentId testData,
                            answers = answersForAPI (selectedAnswers st)\<rparr> # rest)"
proof (cases "length (selectedAnswers st) = length (questions testData)")
  case False
  then show ?thesis by (simp add: handleSubmit_def)
next
  case True
  let ?st1 = "st\<lparr>isSubmitting := True, testResult := None\<rparr>"
  obtain r w' where b: "submitBody api testData userId ?st1 w = (r, w')"
    by (cases "submitBody api testData userId ?st1 w")
  have h: "requests (snd (handleSubmit api testData userId st w)) = requests w'"
    using True b by (cases r) (simp_all add: handleSubmit_def Let_def)
  have "requests w' = requests w
        \<or> (\<exists>rest. requests w' = requests w @ GetMcqs userId
              # SubmitAnswers \<lparr>user_id = userId, mcq_id = getDocumentId testData,
                               answers = answersForAPI (selectedAnswers st)\<rparr> # rest)"
    using b
    apply (simp add: submitBody_def Let_def split: prod.splits sum.splits if_splits)
    apply (auto dest!: call_getMcqs_world call_submitAnswers_world resolveResult_requests)
    done
  with h show ?thesis by simp
qed

text \<open>Claim C6 at its failing input. \<open>TestDisplay.handleSubmit\<close>, for the answered
  one-question test and a server that is unavailable at the first submission: the second
  submission request carries the twenty fixed answers of \<open>hardcodedTestRequest\<close>.\<close>

theorem hardcoded_retry_request:
  "requests (snd (handleSubmit unavailable_once_api example_test ''u1'' answered_state empty_world)) =
     [GetMcqs ''u1'',
      SubmitAnswers \<lparr>user_id = ''u1'', mcq_id = ''doc-42'', answers = [(''1'', ''Agree'')]\<rparr>,
      SubmitAnswers (hardcodedTestRequest ''u1'' ''doc-42''),
      GetResultById ''res-1'']
   \<and> length (questions example_test) = 1
   \<and> length (answers (hardcodedTestRequest ''u1'' ''doc-42'')) = 20"
  by (simp add: eval_defs)

subsection \<open>Error responses\<close>

lemma new_Error_string: "new_Error S (JStr s) = Error s"
  by (simp add: new_Error_def)

lemma thrown_cases:
  "new_Error S (errorMessageOf P fallback content) =
     (case P content of
        Inl syntaxError \<Rightarrow> Error (if content \<noteq> [] then content else fallback)
      | Inr JNull \<Rightarrow> Error (if content \<noteq> [] then content else fallback)
      | Inr (JObj kvs) \<Rightarrow>
          (case map_of kvs ''error'' of
             Some e \<Rightarrow>
               if json_truthy e then new_Error S e
               else (case map_of kvs ''message'' of
                       Some m \<Rightarrow> if json_truthy m then new_Error S m else Error fallback
                     | None \<Rightarrow> Error fallback)
           | None \<Rightarrow>
               (case map_of kvs ''message'' of
                  Some m \<Rightarrow> if json_truthy m then new_Error S m else Error fallback
                | None \<Rightarrow> Error fallback))
      | Inr v \<Rightarrow> Error fallback)"
  by (simp add: errorMessageOf_def Let_def json_or_def new_Error_string
        split: sum.splits json.splits option.splits)

text \<open>Claim C8, as amended. On a response that is not ok, \<open>getMcqs\<close>,
  \<open>submitAnswers\<close> and \<open>getResultById\<close> throw an error made from the text of the
  response. When the parse of the text fails or gives \<open>null\<close>, the message is the text
  itself, or the function's default message if the text is empty. When the text parses as
  a JSON object, the error is made with \<open>new Error\<close> from its \<open>error\<close> property if truthy,
  else from its \<open>message\<close> property if truthy, and has the default message when neither
  is; for every other JSON value it has the default message. \<open>new Error\<close> on a string
  gives the error with that string as its message (on another truthy value, the engine's
  conversion of it, or the error of that conversion). \<open>getJobs\<close> and \<open>submitUserData\<close>
  throw a message made of the status code and the status text.\<close>

theorem error_message_extraction:
  "\<not> ok response \<longrightarrow>
     (\<forall>(f, fallback) \<in> {(api_getMcqs, ''Failed to get MCQs''),
                         (api_submitAnswers, ''Answer submission failed''),
                         (api_getResultById, ''Failed to fetch result'')}.
        f P S (Inr response) =
          Inl (case P (body_text response) of
               Inl syntaxError \<Rightarrow> Error (if body_text response \<noteq> [] then body_text response else fallback)
             | Inr JNull \<Rightarrow> Error (if body_text response \<noteq> [] then body_text response else fallback)
             | Inr (JObj kvs) \<Rightarrow>
                 (case map_of kvs ''error'' of
                    Some e \<Rightarrow>
                      if json_truthy e then new_Error S e
                      else (case map_of kvs ''message'' of
                              Some m \<Rightarrow> if json_truthy m then new_Error S m else Error fallback
                            | None \<Rightarrow> Error fallback)
                  | None \<Rightarrow>
                      (case map_of kvs ''message'' of
                         Some m \<Rightarrow> if json_truthy m then new_Error S m else Error fallback
                       | None \<Rightarrow> Error fallback))
             | Inr v \<Rightarrow> Error fallback))
     \<and> (\<forall>s. new_Error S (JStr s) = Error s)
     \<and> (\<forall>v. (case v of JStr s \<Rightarrow> False | _ \<Rightarrow> True) \<longrightarrow>
            new_Error S v = (case S v of Inl typeError \<Rightarrow> typeError | Inr s \<Rightarrow> Error s))
     \<and> api_getJobs P (Inr response) =
          Inl (Error (''Failed to fetch jobs: '' @ toString (status response) @ '' '' @ statusText response))
     \<and> api_submitUserData P (Inr response) =
          Inl (Error (''Failed to submit data: '' @ toString (status response) @ '' '' @ statusText response))"
proof (intro impI)
  assume n: "\<not> ok response"
  have a: "\<forall>(f, fallback) \<in> {(api_getMcqs, ''Failed to get MCQs''),
                         (api_submitAnswers, ''Answer submission failed''),
                         (api_getResultById, ''Failed to fetch result'')}.
        f P S (Inr response) =
          Inl (case P (body_text response) of
               Inl syntaxError \<Rightarrow> Error (if body_text response \<noteq> [] then body_text response else fallback)
             | Inr JNull \<Rightarrow> Error (if body_text response \<noteq> [] then body_text response else fallback)
             | Inr (JObj kvs) \<Rightarrow>
                 (case map_of kvs ''error'' of
                    Some e \<Rightarrow>
                      if json_truthy e then new_Error S e
                      else (case map_of kvs ''message'' of
                              Some m \<Rightarrow> if json_truthy m then new_Error S m else Error fallback
                            | None \<Rightarrow> Error fallback)
                  | None \<Rightarrow>
                      (case map_of kvs ''message'' of
                         Some m \<Rightarrow> if json_truthy m then new_Error S m else Error fallback
                       | None \<Rightarrow> Error fallback))
             | Inr v \<Rightarrow> Error fallback)"
    using n
    by (simp add: api_getMcqs_def api_submitAnswers_def api_getResultById_def Let_def thrown_cases)
  have b: "\<forall>s. new_Error S (JStr s) = Error s" by (simp add: new_Error_string)
  have c: "\<forall>v. (case v of JStr s \<Rightarrow> False | _ \<Rightarrow> True) \<longrightarrow>
            new_Error S v = (case S v of Inl typeError \<Rightarrow> typeError | Inr s \<Rightarrow> Error s)"
    by (simp add: new_Error_def split: json.splits)
  have d: "api_getJobs P (Inr response) =
          Inl (Error (''Failed to fetch jobs: '' @ toString (status response) @ '' '' @ statusText response))"
    using n by (simp add: api_getJobs_def)
  have e: "api_submitUserData P (Inr response) =
          Inl (Error (''Failed to submit data: '' @ toString (status response) @ '' '' @ statusText response))"
    using n by (simp add: api_submitUserData_def)
  from a b c d e show "(\<forall>(f, fallback) \<in> {(api_getMcqs, ''Failed to get MCQs''),
                         (api_submitAnswers, ''Answer submission failed''),
                         (api_getResultById, ''Failed to fetch result'')}.
        f P S (Inr response) =
          Inl (case P (body_text response) of
               Inl syntaxError \<Rightarrow> Error (if body_text response \<noteq> [] then body_text response else fallback)
             | Inr JNull \<Rightarrow> Error (if body_text response \<noteq> [] then body_text response else fallback)
             | Inr (JObj kvs) \<Rightarrow>
                 (case map_of kvs ''error'' of
                    Some e \<Rightarrow>
                      if json_truthy e then new_Error S e
                      else (case map_of kvs ''message'' of
                              Some m \<Rightarrow> if json_truthy m then new_Error S m else Error fallback
                            | None \<Rightarrow> Error fallback)
                  | None \<Rightarrow>
                      (case map_of kvs ''message'' of
                         Some m \<Rightarrow> if json_truthy m then new_Error S m else Error fallback
                       | None \<Rightarrow> Error fallback))
             | Inr v \<Rightarrow> Error fallback))
     \<and> (\<forall>s. new_Error S (JStr s) = Error s)
     \<and> (\<forall>v. (case v of JStr s \<Rightarrow> False | _ \<Rightarrow> True) \<longrightarrow>
            new_Error S v = (case S v of Inl typeError \<Rightarrow> typeError | Inr s \<Rightarrow> Error s))
     \<and> api_getJobs P (Inr response) =
          Inl (Error (''Failed to fetch jobs: '' @ toString (status response) @ '' '' @ statusText response))
     \<and> api_submitUserData P (Inr response) =
          Inl (Error (''Failed to submit data: '' @ toString (status response) @ '' '' @ statusText response))"
    by blast
qed

text \<open>An \<open>error\<close> property, a \<open>message\<close> property, an \<open>error\<close> property that is
  \<open>true\<close>, a text that is not JSON, and an empty text.\<close>

theorem error_message_extraction_witness:
  "api_getMcqs JSON_parse_examples ToString_examples
      (error_response 409 ''Conflict'' ''{\"error\":\"Email already registered\"}'') =
     Inl (Error ''Email already registered'')
   \<and> api_getResultById JSON_parse_examples ToString_examples
      (error_response 404 ''Not Found'' ''{\"message\":\"Result not found\"}'') =
     Inl (Error ''Result not found'')
   \<and> api_getMcqs JSON_parse_examples ToString_examples
      (error_response 400 ''Bad Request'' ''{\"error\":true}'') =
     Inl (Error ''true'')
   \<and> api_submitAnswers JSON_parse_examples ToString_examples
      (error_response 503 ''Service Unavailable'' ''upstream timed out'') =
     Inl (Error ''upstream timed out'')
   \<and> api_submitAnswers JSON_parse_examples ToString_examples
      (error_response 503 ''Service Unavailable'' []) =
     Inl (Error ''Answer submission failed'')"
  using error_message_extraction [where P = JSON_parse_examples and S = ToString_examples
      and response = "\<lparr>ok = False, status = 409, statusText = ''Conflict'',
                         body_text = ''{\"error\":\"Email already registered\"}''\<rparr>"]
    error_message_extraction [where P = JSON_parse_examples and S = ToString_examples
      and response = "\<lparr>ok = False, status = 404, statusText = ''Not Found'',
                         body_text = ''{\"message\":\"Result not found\"}''\<rparr>"]
    error_message_extraction [where P = JSON_parse_examples and S = ToString_examples
      and response = "\<lparr>ok = False, status = 400, statusText = ''Bad Request'',
                         body_text = ''{\"error\":true}''\<rparr>"]
    error_message_extraction [where P = JSON_parse_examples and S = ToString_examples
      and response = "\<lparr>ok = False, status = 503, statusText = ''Service Unavailable'',
                         body_text = ''upstream timed out''\<rparr>"]
    error_message_extraction [where P = JSON_parse_examples and S = ToString_examples
      and response = "\<lparr>ok = False, status = 503, statusText = ''Service Unavailable'',
                         body_text = []\<rparr>"]
  by (simp add: error_response_def JSON_parse_examples_def ToString_examples_def new_Error_def)

text \<open>Claim C8 as stated fails for the other functions of the client: for the same
  response, whose text is a JSON object with an \<open>error\<close> property, \<open>getJobs\<close> throws the
  status line, and \<open>signup\<close> throws the unparsed text.\<close>

theorem error_message_counterexample:
  "JSON_parse_examples ''{\"error\":\"Email already registered\"}'' =
     Inr (JObj [(''error'', JStr ''Email already registered'')])
   \<and> api_getJobs JSON_parse_examples
        (error_response 409 ''Conflict'' ''{\"error\":\"Email already registered\"}'') =
      Inl (Error ''Failed to fetch jobs: 409 Conflict'')
   \<and> api_signup JSON_parse_examples
        (error_response 409 ''Conflict'' ''{\"error\":\"Email already registered\"}'') =
      Inl (Error ''{\"error\":\"Email already registered\"}'')"
  by (simp add: error_response_def JSON_parse_examples_def api_getJobs_def api_signup_def digit_def
        toString.simps)

end
